theory Spec2Isabelle
  imports Complex_Main "HOL-Library.Char_ord" "HOL-Library.List_Lexorder"
begin

section \<open>JavaScript values and containers\<close>

text \<open>
  The controller \<^verbatim>\<open>TreeCoreCanvas\<close> of \<^verbatim>\<open>tree-core-canvas.js\<close> keeps its data in
  JavaScript \<^verbatim>\<open>Map\<close>s and \<^verbatim>\<open>Set\<close>s. Both iterate in insertion order and hold a key at
  most once, so a \<^verbatim>\<open>Map\<close> is an association list and a \<^verbatim>\<open>Set\<close> a list; the operations
  below keep a key's place when it is written again, as the JavaScript ones do.
  Ids and pair-keys are strings. \<^verbatim>\<open><\<close> on JavaScript strings compares code units
  lexicographically (a proper prefix is smaller), which is the order of
  \<^verbatim>\<open>List_Lexorder\<close> over \<^verbatim>\<open>Char_ord\<close>. A string field that is absent
  (\<^verbatim>\<open>undefined\<close>) is the empty string, the value every writer of the source puts
  there (\<^verbatim>\<open>|| ''\<close>); both are falsy. Coordinates and sizes are reals, counters are
  integers.
\<close>

definition map_has :: "'k \<Rightarrow> ('k \<times> 'v) list \<Rightarrow> bool" where
  "map_has k m = (k \<in> set (map fst m))"

definition map_get :: "'k \<Rightarrow> ('k \<times> 'v) list \<Rightarrow> 'v option" where
  "map_get k m = map_of m k"

fun map_set :: "'k \<Rightarrow> 'v \<Rightarrow> ('k \<times> 'v) list \<Rightarrow> ('k \<times> 'v) list" where
  "map_set k v [] = [(k, v)]"
| "map_set k v (e # m) = (if fst e = k then (k, v) # m else e # map_set k v m)"

definition new_Map :: "('k \<times> 'v) list \<Rightarrow> ('k \<times> 'v) list" where
  "new_Map es = foldl (\<lambda>m e. map_set (fst e) (snd e) m) [] es"

definition set_add :: "'a \<Rightarrow> 'a list \<Rightarrow> 'a list" where
  "set_add a xs = (if a \<in> set xs then xs else xs @ [a])"

definition new_Set :: "'a list \<Rightarrow> 'a list" where
  "new_Set xs = foldl (\<lambda>s a. set_add a s) [] xs"

text \<open>\<^verbatim>\<open>a || b\<close> on strings and on numbers: the first operand unless it is falsy.\<close>

definition or_str :: "string \<Rightarrow> string \<Rightarrow> string" where
  "or_str a b = (if a \<noteq> [] then a else b)"

definition or_num :: "real \<Rightarrow> real \<Rightarrow> real" where
  "or_num a b = (if a \<noteq> 0 then a else b)"

text \<open>\<^verbatim>\<open>str.split(c)\<close>: the pieces between the separators, at least one piece.\<close>

fun split_on :: "char \<Rightarrow> string \<Rightarrow> string list" where
  "split_on c [] = [[]]"
| "split_on c (a # as) =
     (if a = c then [] # split_on c as
      else (case split_on c as of [] \<Rightarrow> [[a]] | w # ws \<Rightarrow> (a # w) # ws))"

section \<open>The data model\<close>

text \<open>
  A person record of \<^verbatim>\<open>personData\<close> (the RelationshipStore), keyed by the person's id:
  the object \<^verbatim>\<open>relationshipData\<close> of \<^verbatim>\<open>processLoadedData\<close>.
\<close>

record person =
  name :: string
  fatherName :: string
  surname :: string
  maidenName :: string
  dob :: string
  gender :: string
  motherId :: string
  fatherId :: string
  spouseId :: string

text \<open>A node of the renderer: the object \<^verbatim>\<open>nodeData\<close> of \<^verbatim>\<open>processLoadedData\<close>.\<close>

record node =
  node_x :: real
  node_y :: real
  node_name :: string
  node_fatherName :: string
  node_surname :: string
  node_maidenName :: string
  node_dob :: string
  node_gender :: string
  node_color :: string
  node_radius :: real

datatype ctype = Parent | Spouse | LineOnly

datatype connection = Conn (conn_from: string) (conn_to: string) (conn_type: ctype)

record camera =
  cam_x :: real
  cam_y :: real
  cam_scale :: real

text \<open>
  The style values the controller holds as fields of its own (\<^verbatim>\<open>this.nodeRadius\<close>, ...)
  and the ones it reads from and writes to \<^verbatim>\<open>this.renderer.settings\<close>.
\<close>

record core_settings =
  nodeRadius :: real
  defaultColor :: string
  fontFamily :: string
  fontSize :: real
  nameColor :: string
  dateColor :: string

record line_settings =
  showNodeOutline :: bool
  outlineColor :: string
  outlineThickness :: real
  familyLineStyle :: string
  familyLineThickness :: real
  familyLineColor :: string
  spouseLineStyle :: string
  spouseLineThickness :: real
  spouseLineColor :: string
  lineOnlyStyle :: string
  lineOnlyThickness :: real
  lineOnlyColor :: string

record display_prefs =
  showMaidenName :: bool
  showDateOfBirth :: bool
  showFatherName :: bool

text \<open>
  A history snapshot, the object \<^verbatim>\<open>state\<close> that \<^verbatim>\<open>pushUndoState\<close> builds. The type
  \<^typ>\<open>'r\<close> is what the \<^verbatim>\<open>personData\<close> map holds for a person: the record itself where
  one map is looked at on its own, a reference into an object store where a snapshot
  and the live map are looked at together.
\<close>

record 'r snapshot =
  snap_nodes :: "(string \<times> node) list"
  snap_personData :: "(string \<times> 'r) list"
  snap_camera :: camera
  snap_hiddenConnections :: "string list"
  snap_lineOnlyConnections :: "string list"
  snap_displayPreferences :: display_prefs
  snap_nodeStyle :: string
  snap_settings :: core_settings
  snap_lineSettings :: line_settings

text \<open>
  Modelled from the spec: the renderer's part of the state below. The renderer
  (\<^verbatim>\<open>canvas-renderer.js\<close>) is not among the sources; of it the record has what the
  spec's RenderSurface contract names: the node collection keyed by id (\<^verbatim>\<open>nodes\<close>),
  the ordered edge list (\<^verbatim>\<open>connections\<close>), the camera, and besides them the settings
  and the redraw flag that the controller reads and writes. The other fields are the
  controller's own, as its constructor declares them.
\<close>

record 'r tree_core =
  nodes :: "(string \<times> node) list"
  connections :: "connection list"
  camera :: camera
  lineSettings :: line_settings
  needsRedraw :: bool
  personData :: "(string \<times> 'r) list"
  hiddenConnections :: "string list"
  lineOnlyConnections :: "string list"
  displayPreferences :: display_prefs
  nodeStyle :: string
  settings :: core_settings
  nextId :: int
  connectionPersonA :: "string option"
  connectionPersonB :: "string option"
  undoStack :: "'r snapshot list"
  redoStack :: "'r snapshot list"
  maxUndoSize :: nat

section \<open>The renderer's operations\<close>

text \<open>
  Modelled from the spec: \<^verbatim>\<open>clearConnections()\<close> of the renderer, which is not among
  the sources. The spec gives an ordered edge list that it empties.
\<close>

definition clearConnections :: "'r tree_core \<Rightarrow> 'r tree_core" where
  "clearConnections s = s\<lparr>connections := []\<rparr>"

text \<open>
  Modelled from the spec: \<^verbatim>\<open>addConnection(from, to, type)\<close> of the renderer, which is
  not among the sources. The spec gives an ordered edge list; the edge is added at its
  end.
\<close>

definition addConnection :: "string \<Rightarrow> string \<Rightarrow> ctype \<Rightarrow> 'r tree_core \<Rightarrow> 'r tree_core" where
  "addConnection a b t s = s\<lparr>connections := connections s @ [Conn a b t]\<rparr>"

text \<open>
  Modelled from the spec: \<^verbatim>\<open>setNode(id, data)\<close> of the renderer, which is not among the
  sources. The spec calls it an upsert on the node collection keyed by id.
\<close>

definition setNode :: "string \<Rightarrow> node \<Rightarrow> 'r tree_core \<Rightarrow> 'r tree_core" where
  "setNode i d s = s\<lparr>nodes := map_set i d (nodes s)\<rparr>"

text \<open>
  Modelled from the spec: \<^verbatim>\<open>getCamera()\<close> and \<^verbatim>\<open>setCamera(x, y, scale)\<close> of the
  renderer, which is not among the sources. The spec names them as the access to the
  camera.
\<close>

definition getCamera :: "'r tree_core \<Rightarrow> camera" where
  "getCamera s = camera s"

definition setCamera :: "real \<Rightarrow> real \<Rightarrow> real \<Rightarrow> 'r tree_core \<Rightarrow> 'r tree_core" where
  "setCamera cx cy sc s = s\<lparr>camera := \<lparr>cam_x = cx, cam_y = cy, cam_scale = sc\<rparr>\<rparr>"

text \<open>\<^verbatim>\<open>this.renderer.nodes.has(id)\<close>.\<close>

definition has_node :: "string \<Rightarrow> 'r tree_core \<Rightarrow> bool" where
  "has_node i s = map_has i (nodes s)"

section \<open>Connection derivation\<close>

definition getConnectionKey :: "string \<Rightarrow> string \<Rightarrow> string" where
  "getConnectionKey id1 id2 = (if id1 < id2 then id1 @ ''-'' @ id2 else id2 @ ''-'' @ id1)"

text \<open>
  One of the three blocks of the first loop of \<^verbatim>\<open>regenerateConnections\<close>: the edge
  from \<^verbatim>\<open>childId\<close> to \<^verbatim>\<open>other\<close> is added unless the pair-key is hidden or a node is
  missing. The counters \<^verbatim>\<open>connectionsAdded\<close> and \<^verbatim>\<open>skippedConnections\<close> are only
  logged and are left out.
\<close>

definition add_unless_hidden :: "string \<Rightarrow> string \<Rightarrow> ctype \<Rightarrow> 'r tree_core \<Rightarrow> 'r tree_core" where
  "add_unless_hidden childId other t s =
     (if getConnectionKey childId other \<notin> set (hiddenConnections s)
      then (if has_node childId s \<and> has_node other s
            then addConnection childId other t s else s)
      else s)"

text \<open>
  The body of the first loop, for the entry \<^verbatim>\<open>[childId, childData]\<close>. The last step
  writes to the entry under visit only, so every entry is read as it was when the loop
  began.
\<close>

definition visit_person :: "string \<times> person \<Rightarrow> person tree_core \<Rightarrow> person tree_core" where
  "visit_person e s =
     (let childId = fst e; childData = snd e;
          s1 = (if motherId childData \<noteq> []
                then add_unless_hidden childId (motherId childData) Parent s else s);
          s2 = (if fatherId childData \<noteq> []
                then add_unless_hidden childId (fatherId childData) Parent s1 else s1);
          s3 = (if spouseId childData \<noteq> [] \<and> spouseId childData \<noteq> childId
                   \<and> childId < spouseId childData
                then add_unless_hidden childId (spouseId childData) Spouse s2 else s2)
      in if spouseId childData = childId
         then s3\<lparr>personData := map_set childId (childData\<lparr>spouseId := []\<rparr>) (personData s3)\<rparr>
         else s3)"

text \<open>
  The body of the second loop. \<^verbatim>\<open>const [id1, id2] = connectionKey.split('-')\<close> takes
  the first two pieces; with a single piece \<^verbatim>\<open>id2\<close> is \<^verbatim>\<open>undefined\<close>, which is no
  node's id.
\<close>

definition visit_line_only :: "string \<Rightarrow> 'r tree_core \<Rightarrow> 'r tree_core" where
  "visit_line_only connectionKey s =
     (if connectionKey \<notin> set (hiddenConnections s)
      then (case split_on CHR ''-'' connectionKey of
              id1 # id2 # rest \<Rightarrow>
                if has_node id1 s \<and> has_node id2 s
                then addConnection id1 id2 LineOnly s else s
            | _ \<Rightarrow> s)
      else s)"

text \<open>
  \<^verbatim>\<open>regenerateConnections\<close>. The guard \<^verbatim>\<open>!this.personData || this.personData.size === 0\<close>
  returns right after the edge list is cleared; a missing map and an empty one are
  both the empty list here.
\<close>

definition regenerateConnections :: "person tree_core \<Rightarrow> person tree_core" where
  "regenerateConnections s0 =
     (let s = clearConnections s0 in
      if personData s = [] then s
      else (let s1 = foldl (\<lambda>t e. visit_person e t) s (personData s);
                s2 = foldl (\<lambda>t k. visit_line_only k t) s1 (lineOnlyConnections s1)
            in s2\<lparr>needsRedraw := True\<rparr>))"

text \<open>
  What one visit of each loop contributes, as functions of the suppression set and the
  node collection alone. They are not part of the source; the lemmas below show that
  the loops compute them, and the theorems are stated with them.
\<close>

definition edge_if :: "string list \<Rightarrow> (string \<times> node) list \<Rightarrow> string \<Rightarrow> string \<Rightarrow> ctype \<Rightarrow> connection list" where
  "edge_if hid ns a b t =
     (if getConnectionKey a b \<notin> set hid \<and> map_has a ns \<and> map_has b ns
      then [Conn a b t] else [])"

definition person_edges :: "string list \<Rightarrow> (string \<times> node) list \<Rightarrow> string \<times> person \<Rightarrow> connection list" where
  "person_edges hid ns e =
     (if motherId (snd e) \<noteq> [] then edge_if hid ns (fst e) (motherId (snd e)) Parent else []) @
     (if fatherId (snd e) \<noteq> [] then edge_if hid ns (fst e) (fatherId (snd e)) Parent else []) @
     (if spouseId (snd e) \<noteq> [] \<and> spouseId (snd e) \<noteq> fst e \<and> fst e < spouseId (snd e)
      then edge_if hid ns (fst e) (spouseId (snd e)) Spouse else [])"

definition key_ids :: "string \<Rightarrow> (string \<times> string) option" where
  "key_ids k = (case split_on CHR ''-'' k of id1 # id2 # rest \<Rightarrow> Some (id1, id2) | _ \<Rightarrow> None)"

definition line_only_edge :: "string list \<Rightarrow> (string \<times> node) list \<Rightarrow> string \<Rightarrow> connection option" where
  "line_only_edge hid ns k =
     (if k \<in> set hid then None
      else (case key_ids k of
              Some (a, b) \<Rightarrow> if map_has a ns \<and> map_has b ns then Some (Conn a b LineOnly) else None
            | None \<Rightarrow> None))"

definition unself :: "string \<times> person \<Rightarrow> string \<times> person" where
  "unself e = (if spouseId (snd e) = fst e then (fst e, (snd e)\<lparr>spouseId := []\<rparr>) else e)"

text \<open>
  A loop over the entries of a map that writes a new value under the key of each entry
  that satisfies \<open>p\<close>: what it makes of the map \<open>m\<close>.
\<close>

fun set_each :: "('k \<times> 'v \<Rightarrow> bool) \<Rightarrow> ('k \<times> 'v \<Rightarrow> 'v) \<Rightarrow> ('k \<times> 'v) list \<Rightarrow> ('k \<times> 'v) list \<Rightarrow> ('k \<times> 'v) list" where
  "set_each p f [] m = m"
| "set_each p f (e # es) m = set_each p f es (if p e then map_set (fst e) (f e) m else m)"

text \<open>An edge joins \<open>a\<close> and \<open>b\<close>, in either direction.\<close>

definition between :: "string \<Rightarrow> string \<Rightarrow> connection \<Rightarrow> bool" where
  "between a b c = ((conn_from c = a \<and> conn_to c = b) \<or> (conn_from c = b \<and> conn_to c = a))"

section \<open>The cleanup pass\<close>

text \<open>
  The body of the loop of \<^verbatim>\<open>cleanupInvalidRelationships\<close> for the entry
  \<^verbatim>\<open>[personId, personData]\<close>, on the pair of the counter \<^verbatim>\<open>cleaned\<close> and the state.
\<close>

definition cleanup_person :: "string \<times> person \<Rightarrow> nat \<times> person tree_core \<Rightarrow> nat \<times> person tree_core" where
  "cleanup_person e acc =
     (let personId = fst e; d0 = snd e; cleaned = fst acc; s = snd acc;
          h1 = (spouseId d0 = personId);
          d1 = (if h1 then d0\<lparr>spouseId := []\<rparr> else d0);
          c1 = (if h1 then cleaned + 1 else cleaned);
          h2 = (motherId d1 = personId);
          d2 = (if h2 then d1\<lparr>motherId := []\<rparr> else d1);
          c2 = (if h2 then c1 + 1 else c1);
          h3 = (fatherId d2 = personId);
          d3 = (if h3 then d2\<lparr>fatherId := []\<rparr> else d2);
          c3 = (if h3 then c2 + 1 else c2)
      in (c3, if h1 \<or> h2 \<or> h3 then s\<lparr>personData := map_set personId d3 (personData s)\<rparr> else s))"

definition cleanupInvalidRelationships :: "person tree_core \<Rightarrow> nat \<times> person tree_core" where
  "cleanupInvalidRelationships s =
     (let r = foldl (\<lambda>acc e. cleanup_person e acc) (0, s) (personData s);
          cleaned = fst r; s1 = snd r
      in if cleaned > 0
         then (cleaned, (regenerateConnections s1)\<lparr>needsRedraw := True\<rparr>)
         else (cleaned, s1))"

text \<open>One record with its self-references cleared, and the number of fields cleared.\<close>

definition clean_record :: "string \<times> person \<Rightarrow> string \<times> person" where
  "clean_record e =
     (fst e, (snd e)\<lparr>spouseId := (if spouseId (snd e) = fst e then [] else spouseId (snd e)),
                     motherId := (if motherId (snd e) = fst e then [] else motherId (snd e)),
                     fatherId := (if fatherId (snd e) = fst e then [] else fatherId (snd e))\<rparr>)"

definition self_refs :: "string \<times> person \<Rightarrow> nat" where
  "self_refs e =
     (if spouseId (snd e) = fst e then 1 else 0) +
     (if motherId (snd e) = fst e then 1 else 0) +
     (if fatherId (snd e) = fst e then 1 else 0)"

section \<open>History\<close>

text \<open>
  \<^verbatim>\<open>pushUndoState\<close>. \<^verbatim>\<open>new Map(this.personData)\<close> and \<^verbatim>\<open>new Set(...)\<close> copy the
  container: the same entries in the same order, and for the map the same values,
  which are the person records themselves and not copies of them. The node objects
  are copied one by one (\<^verbatim>\<open>{ ...node }\<close>); their fields are strings and numbers.
  The deferred \<^verbatim>\<open>setTimeout(() => this.autoSave(), 100)\<close> is a later event and not
  part of the call.
\<close>

definition takeSnapshot :: "'r tree_core \<Rightarrow> 'r snapshot" where
  "takeSnapshot s =
     \<lparr>snap_nodes = map (\<lambda>e. (fst e, snd e)) (nodes s),
      snap_personData = personData s,
      snap_camera = getCamera s,
      snap_hiddenConnections = hiddenConnections s,
      snap_lineOnlyConnections = lineOnlyConnections s,
      snap_displayPreferences = displayPreferences s,
      snap_nodeStyle = nodeStyle s,
      snap_settings = settings s,
      snap_lineSettings = lineSettings s\<rparr>"

definition pushUndoState :: "'r tree_core \<Rightarrow> 'r tree_core" where
  "pushUndoState s =
     (let pushed = undoStack s @ [takeSnapshot s];
          capped = (if length pushed > maxUndoSize s then tl pushed else pushed)
      in s\<lparr>undoStack := capped, redoStack := []\<rparr>)"

text \<open>
  A run of committed edits: before each push the live part of the state is whatever
  the edit made of it (\<open>l\<close>), while the two stacks and the bound stay the
  controller's.
\<close>

definition with_live :: "'r tree_core \<Rightarrow> 'r tree_core \<Rightarrow> 'r tree_core" where
  "with_live l s = l\<lparr>undoStack := undoStack s, redoStack := redoStack s, maxUndoSize := maxUndoSize s\<rparr>"

definition push_all :: "'r tree_core list \<Rightarrow> 'r tree_core \<Rightarrow> 'r tree_core" where
  "push_all ls s = foldl (\<lambda>t l. pushUndoState (with_live l t)) s ls"

text \<open>
  The controller as its constructor and \<^verbatim>\<open>initialize\<close> leave it: the defaults of the
  constructor, an empty renderer, and the renderer's settings at the defaults that
  \<^verbatim>\<open>getCurrentState\<close> falls back to.
\<close>

definition initial_core :: "'r tree_core" where
  "initial_core =
     \<lparr>nodes = [], connections = [],
      camera = \<lparr>cam_x = 0, cam_y = 0, cam_scale = 1\<rparr>,
      lineSettings = \<lparr>showNodeOutline = True, outlineColor = ''#2c3e50'', outlineThickness = 2,
                      familyLineStyle = ''solid'', familyLineThickness = 2, familyLineColor = ''#7f8c8d'',
                      spouseLineStyle = ''dashed'', spouseLineThickness = 2, spouseLineColor = ''#e74c3c'',
                      lineOnlyStyle = ''dash-dot'', lineOnlyThickness = 2, lineOnlyColor = ''#9b59b6''\<rparr>,
      needsRedraw = False,
      personData = [], hiddenConnections = [], lineOnlyConnections = [],
      displayPreferences = \<lparr>showMaidenName = True, showDateOfBirth = True, showFatherName = True\<rparr>,
      nodeStyle = ''circle'',
      settings = \<lparr>nodeRadius = 50, defaultColor = ''#3498db'', fontFamily = ''Inter'', fontSize = 11,
                  nameColor = ''#ffffff'', dateColor = ''#f0f0f0''\<rparr>,
      nextId = 1, connectionPersonA = None, connectionPersonB = None,
      undoStack = [], redoStack = [], maxUndoSize = 50\<rparr>"

definition empty_person :: person where
  "empty_person = \<lparr>name = [], fatherName = [], surname = [], maidenName = [], dob = [],
                    gender = [], motherId = [], fatherId = [], spouseId = []\<rparr>"

definition plain_node :: "real \<Rightarrow> real \<Rightarrow> string \<Rightarrow> node" where
  "plain_node px py nm =
     \<lparr>node_x = px, node_y = py, node_name = nm, node_fatherName = [], node_surname = [],
      node_maidenName = [], node_dob = [], node_gender = ''male'',
      node_color = ''#3498db'', node_radius = 50\<rparr>"

subsection \<open>Person records as shared objects\<close>

text \<open>
  A snapshot's map and the live map hold the same record objects, so what a snapshot
  says about a person depends on later writes to that person's record. Here the maps
  hold references and the records live in an object store; \<open>next_ref\<close> is the next
  unused reference.
\<close>

record heap_core =
  live :: "nat tree_core"
  objs :: "nat \<Rightarrow> person"
  next_ref :: nat

definition push_h :: "heap_core \<Rightarrow> heap_core" where
  "push_h h = h\<lparr>live := pushUndoState (live h)\<rparr>"

text \<open>The person records a snapshot holds, read through the object store.\<close>

definition snapshot_store :: "heap_core \<Rightarrow> nat snapshot \<Rightarrow> (string \<times> person) list" where
  "snapshot_store h sn = map (\<lambda>e. (fst e, objs h (snd e))) (snap_personData sn)"

text \<open>\<^verbatim>\<open>this.personData.get(p) || {}\<close>: the record of \<open>p\<close>, or a new empty object.\<close>

definition get_or_new :: "string \<Rightarrow> heap_core \<Rightarrow> nat \<times> heap_core" where
  "get_or_new p h =
     (case map_get p (personData (live h)) of
        Some r \<Rightarrow> (r, h)
      | None \<Rightarrow> (next_ref h, h\<lparr>objs := (objs h)(next_ref h := empty_person),
                                next_ref := Suc (next_ref h)\<rparr>))"

definition write_obj :: "nat \<Rightarrow> (person \<Rightarrow> person) \<Rightarrow> heap_core \<Rightarrow> heap_core" where
  "write_obj r f h = h\<lparr>objs := (objs h)(r := f (objs h r))\<rparr>"

definition on_live :: "(nat tree_core \<Rightarrow> nat tree_core) \<Rightarrow> heap_core \<Rightarrow> heap_core" where
  "on_live f h = h\<lparr>live := f (live h)\<rparr>"

datatype connection_kind = KMother | KFather | KChild | KSpouse | KLineOnly | KOther

text \<open>
  \<^verbatim>\<open>createConnection(connectionType)\<close>, the method of that name that takes effect (the
  later of the two in the class). Closing the modal resets the two selected persons;
  the redraw, the modal and the selection are the renderer's and the page's. The last
  step of the source, \<^verbatim>\<open>this.undoRedoManager.pushUndoState()\<close>, calls a module that is
  not among the sources and is left to the caller.
\<close>

definition createConnection :: "connection_kind \<Rightarrow> heap_core \<Rightarrow> heap_core" where
  "createConnection connectionType h =
     (case (connectionPersonA (live h), connectionPersonB (live h)) of
        (Some personA, Some personB) \<Rightarrow>
          if personA = [] \<or> personB = [] then h
          else
            (let ga = get_or_new personA h; ra = fst ga;
                 gb = get_or_new personB (snd ga); rb = fst gb; h2 = snd gb;
                 line_only = (\<lambda>t. on_live (addConnection personA personB LineOnly)
                                 (on_live (\<lambda>s. s\<lparr>lineOnlyConnections :=
                                      set_add (personA @ ''-'' @ personB) (lineOnlyConnections s)\<rparr>) t));
                 parent_edge = on_live (addConnection personB personA Parent);
                 h3 = (case connectionType of
                         KMother \<Rightarrow> parent_edge (write_obj rb (\<lambda>d. d\<lparr>motherId := personA\<rparr>) h2)
                       | KFather \<Rightarrow> parent_edge (write_obj rb (\<lambda>d. d\<lparr>fatherId := personA\<rparr>) h2)
                       | KChild \<Rightarrow>
                           if motherId (objs h2 rb) = []
                           then parent_edge (write_obj rb (\<lambda>d. d\<lparr>motherId := personA\<rparr>) h2)
                           else if fatherId (objs h2 rb) = []
                           then parent_edge (write_obj rb (\<lambda>d. d\<lparr>fatherId := personA\<rparr>) h2)
                           else line_only h2
                       | KSpouse \<Rightarrow>
                           on_live (addConnection personA personB Spouse)
                             (write_obj rb (\<lambda>d. d\<lparr>spouseId := personA\<rparr>)
                               (write_obj ra (\<lambda>d. d\<lparr>spouseId := personB\<rparr>) h2))
                       | KLineOnly \<Rightarrow> line_only h2
                       | KOther \<Rightarrow> h2)
             in on_live (\<lambda>s. s\<lparr>personData := map_set personB rb (map_set personA ra (personData s)),
                                needsRedraw := True,
                                connectionPersonA := None, connectionPersonB := None\<rparr>) h3)
      | _ \<Rightarrow> h)"

section \<open>Persistence\<close>

subsection \<open>The persisted snapshot\<close>

text \<open>
  A person of a snapshot's \<^verbatim>\<open>persons\<close> array, with every property the loader probes,
  the legacy names included. A property that the object does not have is \<open>None\<close>.
  The id is a string: \<^verbatim>\<open>processLoadedData\<close> calls \<^verbatim>\<open>person.id.replace\<close>.
\<close>

record persisted_person =
  pp_id :: string
  pp_x :: "real option"
  pp_cx :: "real option"
  pp_y :: "real option"
  pp_cy :: "real option"
  pp_name :: "string option"
  pp_fatherName :: "string option"
  pp_father_name :: "string option"
  pp_surname :: "string option"
  pp_maidenName :: "string option"
  pp_birthName :: "string option"
  pp_birth_name :: "string option"
  pp_dob :: "string option"
  pp_gender :: "string option"
  pp_color :: "string option"
  pp_nodeColor :: "string option"
  pp_fill :: "string option"
  pp_radius :: "real option"
  pp_nodeSize :: "real option"
  pp_r :: "real option"
  pp_motherId :: "string option"
  pp_mother_id :: "string option"
  pp_fatherId :: "string option"
  pp_father_id :: "string option"
  pp_spouseId :: "string option"
  pp_spouse_id :: "string option"

record persisted_settings =
  ps_nodeRadius :: "real option"
  ps_defaultColor :: "string option"
  ps_fontFamily :: "string option"
  ps_fontSize :: "real option"
  ps_nameColor :: "string option"
  ps_dateColor :: "string option"
  ps_showNodeOutline :: "bool option"
  ps_outlineColor :: "string option"
  ps_outlineThickness :: "real option"
  ps_familyLineStyle :: "string option"
  ps_familyLineThickness :: "real option"
  ps_familyLineColor :: "string option"
  ps_spouseLineStyle :: "string option"
  ps_spouseLineThickness :: "real option"
  ps_spouseLineColor :: "string option"
  ps_lineOnlyStyle :: "string option"
  ps_lineOnlyThickness :: "real option"
  ps_lineOnlyColor :: "string option"

text \<open>
  The snapshot object. \<^verbatim>\<open>getCurrentState\<close> writes \<^verbatim>\<open>personDataBackup\<close> and
  \<^verbatim>\<open>currentConnections\<close>, \<^verbatim>\<open>getCompressedState\<close> writes \<^verbatim>\<open>personData\<close>; \<^verbatim>\<open>people\<close> is
  the property of the format the loader does not recognize.
\<close>

record persisted =
  d_version :: "string option"
  d_timestamp :: "nat option"
  d_cacheFormat :: "string option"
  d_settings :: "persisted_settings option"
  d_displayPreferences :: "display_prefs option"
  d_nodeStyle :: "string option"
  d_camera :: "camera option"
  d_hiddenConnections :: "string list option"
  d_lineOnlyConnections :: "string list option"
  d_persons :: "persisted_person list option"
  d_people :: "persisted_person list option"
  d_personDataBackup :: "(string \<times> person) list option"
  d_personData :: "(string \<times> person) list option"
  d_currentConnections :: "connection list option"
  d_nextId :: "int option"

text \<open>Truthiness of an optional string and of an optional number, and \<^verbatim>\<open>||\<close> on them.\<close>

definition truthy_str :: "string option \<Rightarrow> bool" where
  "truthy_str a = (case a of Some v \<Rightarrow> v \<noteq> [] | None \<Rightarrow> False)"

definition truthy_num :: "real option \<Rightarrow> bool" where
  "truthy_num a = (case a of Some v \<Rightarrow> v \<noteq> 0 | None \<Rightarrow> False)"

definition or_opt_str :: "string option \<Rightarrow> string option \<Rightarrow> string option" where
  "or_opt_str a b = (if truthy_str a then a else b)"

definition or_opt_num :: "real option \<Rightarrow> real option \<Rightarrow> real option" where
  "or_opt_num a b = (if truthy_num a then a else b)"

definition str_or :: "string option \<Rightarrow> string \<Rightarrow> string" where
  "str_or a b = (case a of Some v \<Rightarrow> (if v \<noteq> [] then v else b) | None \<Rightarrow> b)"

definition num_or :: "real option \<Rightarrow> real \<Rightarrow> real" where
  "num_or a b = (case a of Some v \<Rightarrow> (if v \<noteq> 0 then v else b) | None \<Rightarrow> b)"

text \<open>\<^verbatim>\<open>a ?? b\<close>: the first operand unless it is absent.\<close>

definition coalesce :: "'a option \<Rightarrow> 'a \<Rightarrow> 'a" where
  "coalesce a b = (case a of Some v \<Rightarrow> v | None \<Rightarrow> b)"

text \<open>\<^verbatim>\<open>this.personData?.get(id) || {}\<close> where only properties are read.\<close>

definition record_of :: "string \<Rightarrow> (string \<times> person) list \<Rightarrow> person" where
  "record_of i m = (case map_get i m of Some d \<Rightarrow> d | None \<Rightarrow> empty_person)"

definition no_legacy :: persisted_person where
  "no_legacy =
     \<lparr>pp_id = [], pp_x = None, pp_cx = None, pp_y = None, pp_cy = None,
      pp_name = None, pp_fatherName = None, pp_father_name = None, pp_surname = None,
      pp_maidenName = None, pp_birthName = None, pp_birth_name = None, pp_dob = None,
      pp_gender = None, pp_color = None, pp_nodeColor = None, pp_fill = None,
      pp_radius = None, pp_nodeSize = None, pp_r = None,
      pp_motherId = None, pp_mother_id = None, pp_fatherId = None, pp_father_id = None,
      pp_spouseId = None, pp_spouse_id = None\<rparr>"

text \<open>The object \<^verbatim>\<open>personState\<close> that \<^verbatim>\<open>getCurrentState\<close> builds for a node.\<close>

definition personState :: "person tree_core \<Rightarrow> string \<times> node \<Rightarrow> persisted_person" where
  "personState s e =
     (let i = fst e; n = snd e; pd = record_of i (personData s) in
      no_legacy\<lparr>pp_id := i,
        pp_x := Some (node_x n),
        pp_y := Some (node_y n),
        pp_name := Some (or_str (node_name n) (or_str (name pd) [])),
        pp_fatherName := Some (or_str (node_fatherName n) (or_str (fatherName pd) [])),
        pp_surname := Some (or_str (node_surname n) (or_str (surname pd) [])),
        pp_maidenName := Some (or_str (node_maidenName n) (or_str (maidenName pd) [])),
        pp_dob := Some (or_str (node_dob n) (or_str (dob pd) [])),
        pp_gender := Some (or_str (node_gender n) (or_str (gender pd) [])),
        pp_color := Some (or_str (node_color n) (defaultColor (settings s))),
        pp_radius := Some (or_num (node_radius n) (nodeRadius (settings s))),
        pp_motherId := Some (or_str (motherId pd) []),
        pp_fatherId := Some (or_str (fatherId pd) []),
        pp_spouseId := Some (or_str (spouseId pd) [])\<rparr>)"

definition empty_persisted :: persisted where
  "empty_persisted =
     \<lparr>d_version = None, d_timestamp = None, d_cacheFormat = None, d_settings = None,
      d_displayPreferences = None, d_nodeStyle = None, d_camera = None,
      d_hiddenConnections = None, d_lineOnlyConnections = None, d_persons = None,
      d_people = None, d_personDataBackup = None, d_personData = None,
      d_currentConnections = None, d_nextId = None\<rparr>"

definition cacheVersion :: string where
  "cacheVersion = ''2.6''"

text \<open>
  The \<^verbatim>\<open>settings\<close> object of \<^verbatim>\<open>getCurrentState\<close>. The renderer exists, so
  \<^verbatim>\<open>this.renderer?.settings.x ?? d\<close> is the renderer's value.
\<close>

definition settings_object :: "person tree_core \<Rightarrow> persisted_settings" where
  "settings_object s =
     \<lparr>ps_nodeRadius = Some (nodeRadius (settings s)),
      ps_defaultColor = Some (defaultColor (settings s)),
      ps_fontFamily = Some (fontFamily (settings s)),
      ps_fontSize = Some (fontSize (settings s)),
      ps_nameColor = Some (nameColor (settings s)),
      ps_dateColor = Some (dateColor (settings s)),
      ps_showNodeOutline = Some (showNodeOutline (lineSettings s)),
      ps_outlineColor = Some (outlineColor (lineSettings s)),
      ps_outlineThickness = Some (outlineThickness (lineSettings s)),
      ps_familyLineStyle = Some (familyLineStyle (lineSettings s)),
      ps_familyLineThickness = Some (familyLineThickness (lineSettings s)),
      ps_familyLineColor = Some (familyLineColor (lineSettings s)),
      ps_spouseLineStyle = Some (spouseLineStyle (lineSettings s)),
      ps_spouseLineThickness = Some (spouseLineThickness (lineSettings s)),
      ps_spouseLineColor = Some (spouseLineColor (lineSettings s)),
      ps_lineOnlyStyle = Some (lineOnlyStyle (lineSettings s)),
      ps_lineOnlyThickness = Some (lineOnlyThickness (lineSettings s)),
      ps_lineOnlyColor = Some (lineOnlyColor (lineSettings s))\<rparr>"

text \<open>\<^verbatim>\<open>getCurrentState\<close>; \<open>t\<close> is what \<^verbatim>\<open>Date.now()\<close> returns.\<close>

definition getCurrentState :: "nat \<Rightarrow> person tree_core \<Rightarrow> persisted" where
  "getCurrentState t s =
     empty_persisted\<lparr>
       d_version := Some cacheVersion,
       d_timestamp := Some t,
       d_cacheFormat := Some ''enhanced'',
       d_settings := Some (settings_object s),
       d_displayPreferences := Some (displayPreferences s),
       d_nodeStyle := Some (nodeStyle s),
       d_camera := Some (getCamera s),
       d_hiddenConnections := Some (hiddenConnections s),
       d_lineOnlyConnections := Some (lineOnlyConnections s),
       d_persons := Some (map (personState s) (nodes s)),
       d_personDataBackup := Some (personData s),
       d_currentConnections := Some (connections s),
       d_nextId := Some (nextId s)\<rparr>"

text \<open>
  \<^verbatim>\<open>getPersonsArray\<close>: \<^verbatim>\<open>{ id, x, y, color, radius, ...personData }\<close>. The spread adds
  the record's properties when the person has a record and nothing otherwise.
\<close>

definition personEntry :: "person tree_core \<Rightarrow> string \<times> node \<Rightarrow> persisted_person" where
  "personEntry s e =
     (let i = fst e; n = snd e;
          base = no_legacy\<lparr>pp_id := i, pp_x := Some (node_x n), pp_y := Some (node_y n),
                           pp_color := Some (node_color n), pp_radius := Some (node_radius n)\<rparr>
      in case map_get i (personData s) of
           None \<Rightarrow> base
         | Some pd \<Rightarrow>
             base\<lparr>pp_name := Some (name pd), pp_fatherName := Some (fatherName pd),
                  pp_surname := Some (surname pd), pp_maidenName := Some (maidenName pd),
                  pp_dob := Some (dob pd), pp_gender := Some (gender pd),
                  pp_motherId := Some (motherId pd), pp_fatherId := Some (fatherId pd),
                  pp_spouseId := Some (spouseId pd)\<rparr>)"

definition getPersonsArray :: "person tree_core \<Rightarrow> persisted_person list" where
  "getPersonsArray s = map (personEntry s) (nodes s)"

definition getCompressedState :: "nat \<Rightarrow> person tree_core \<Rightarrow> persisted" where
  "getCompressedState t s =
     empty_persisted\<lparr>
       d_version := Some cacheVersion,
       d_timestamp := Some t,
       d_cacheFormat := Some ''compressed'',
       d_persons := Some (getPersonsArray s),
       d_personData := Some (personData s),
       d_nextId := Some (nextId s),
       d_hiddenConnections := Some (hiddenConnections s),
       d_lineOnlyConnections := Some (lineOnlyConnections s)\<rparr>"

subsection \<open>The browser's storage\<close>

text \<open>
  \<^verbatim>\<open>localStorage\<close>, \<^verbatim>\<open>JSON\<close>, \<^verbatim>\<open>Blob\<close>, \<^verbatim>\<open>Date.now\<close> and \<^verbatim>\<open>parseInt\<close> are the
  platform's. The storage is a list of items under the primary key
  (\<^verbatim>\<open>familyTreeCanvas_state\<close>), the backup keys (the primary key, \<^verbatim>\<open>_backup_\<close> and a
  time) and any other key. An item is the text that was stored: the serialization of
  a snapshot, written as the snapshot, the text \<^verbatim>\<open>null\<close>, the empty text, or
  text that \<^verbatim>\<open>JSON.parse\<close> rejects. What the platform decides is a parameter: the time, the
  size of a snapshot's serialization in bytes, whether the storage accepts a write
  (\<^verbatim>\<open>setItem\<close> throws when the quota is exceeded), and \<^verbatim>\<open>parseInt\<close>.
\<close>

datatype skey = PrimaryKey | BackupKey nat | OtherKey string

datatype doc = EmptyText | Malformed | JsonNull | JsonObj persisted

record env =
  now :: nat
  blobSize :: "persisted \<Rightarrow> nat"
  accepts :: "(skey \<times> doc) list \<Rightarrow> skey \<Rightarrow> doc \<Rightarrow> bool"
  parseInt :: "string \<Rightarrow> int option"

record world =
  core :: "person tree_core"
  localStorage :: "(skey \<times> doc) list"

definition setItem :: "env \<Rightarrow> skey \<Rightarrow> doc \<Rightarrow> (skey \<times> doc) list \<Rightarrow> (skey \<times> doc) list option" where
  "setItem ev k v st = (if accepts ev st k v then Some (map_set k v st) else None)"

definition backup_times :: "(skey \<times> doc) list \<Rightarrow> nat list" where
  "backup_times st = List.map_filter (\<lambda>e. case fst e of BackupKey t \<Rightarrow> Some t | _ \<Rightarrow> None) st"

text \<open>
  \<^verbatim>\<open>cleanOldBackups\<close>: the backup keys sorted by time, newest first; all but the first
  three are removed. It catches its own errors.
\<close>

definition cleanOldBackups :: "(skey \<times> doc) list \<Rightarrow> (skey \<times> doc) list" where
  "cleanOldBackups st =
     (let old = drop 3 (rev (sort (backup_times st)))
      in filter (\<lambda>e. case fst e of BackupKey t \<Rightarrow> t \<notin> set old | _ \<Rightarrow> True) st)"

definition size_limit :: nat where
  "size_limit = 5 * 1024 * 1024"

text \<open>
  \<^verbatim>\<open>saveToCache\<close>: the result and the world after it. A write that throws is caught
  and gives \<^verbatim>\<open>false\<close>; what was written before it stays written.
\<close>

definition saveToCache :: "env \<Rightarrow> world \<Rightarrow> bool \<times> world" where
  "saveToCache ev w =
     (let state = getCurrentState (now ev) (core w);
          primary = (if blobSize ev state > size_limit
                     then getCompressedState (now ev) (core w) else state)
      in case setItem ev PrimaryKey (JsonObj primary) (localStorage w) of
           None \<Rightarrow> (False, w)
         | Some st1 \<Rightarrow>
             (case setItem ev (BackupKey (now ev)) (JsonObj state) st1 of
                None \<Rightarrow> (False, w\<lparr>localStorage := st1\<rparr>)
              | Some st2 \<Rightarrow> (True, w\<lparr>localStorage := cleanOldBackups st2\<rparr>)))"

subsection \<open>Loading\<close>

text \<open>
  The settings block of \<^verbatim>\<open>processLoadedData\<close>. Its call of
  \<^verbatim>\<open>updateRendererSettings\<close> (\<^verbatim>\<open>ui-settings.js\<close>) copies the controller's style values,
  the node style and the display preferences into the renderer, which draws with
  them, and asks for a redraw; the redraw flag is what is kept of it here.
\<close>

definition restore_settings :: "persisted \<Rightarrow> person tree_core \<Rightarrow> person tree_core" where
  "restore_settings data s =
     (case d_settings data of
        None \<Rightarrow> s
      | Some st \<Rightarrow>
          s\<lparr>settings :=
              \<lparr>nodeRadius = num_or (ps_nodeRadius st) (nodeRadius (settings s)),
               defaultColor = str_or (ps_defaultColor st) (defaultColor (settings s)),
               fontFamily = str_or (ps_fontFamily st) (fontFamily (settings s)),
               fontSize = num_or (ps_fontSize st) (fontSize (settings s)),
               nameColor = str_or (ps_nameColor st) (nameColor (settings s)),
               dateColor = str_or (ps_dateColor st) (dateColor (settings s))\<rparr>,
            lineSettings :=
              \<lparr>showNodeOutline = coalesce (ps_showNodeOutline st) True,
               outlineColor = coalesce (ps_outlineColor st) ''#2c3e50'',
               outlineThickness = coalesce (ps_outlineThickness st) 2,
               familyLineStyle = coalesce (ps_familyLineStyle st) ''solid'',
               familyLineThickness = coalesce (ps_familyLineThickness st) 2,
               familyLineColor = coalesce (ps_familyLineColor st) ''#7f8c8d'',
               spouseLineStyle = coalesce (ps_spouseLineStyle st) ''dashed'',
               spouseLineThickness = coalesce (ps_spouseLineThickness st) 2,
               spouseLineColor = coalesce (ps_spouseLineColor st) ''#e74c3c'',
               lineOnlyStyle = coalesce (ps_lineOnlyStyle st) ''dash-dot'',
               lineOnlyThickness = coalesce (ps_lineOnlyThickness st) 2,
               lineOnlyColor = coalesce (ps_lineOnlyColor st) ''#9b59b6''\<rparr>,
            needsRedraw := True\<rparr>)"

text \<open>The display preferences, the node style, the camera, the two sets and the counter.\<close>

definition restore_view :: "persisted \<Rightarrow> person tree_core \<Rightarrow> person tree_core" where
  "restore_view data s =
     (let s1 = (case d_displayPreferences data of Some p \<Rightarrow> s\<lparr>displayPreferences := p\<rparr> | None \<Rightarrow> s);
          s2 = (case d_nodeStyle data of
                  Some v \<Rightarrow> (if v \<noteq> [] then s1\<lparr>nodeStyle := v\<rparr> else s1)
                | None \<Rightarrow> s1);
          s3 = (case d_camera data of
                  Some c \<Rightarrow> setCamera (cam_x c) (cam_y c) (cam_scale c) s2
                | None \<Rightarrow> s2);
          s4 = (case d_hiddenConnections data of Some h \<Rightarrow> s3\<lparr>hiddenConnections := new_Set h\<rparr> | None \<Rightarrow> s3);
          s5 = (case d_lineOnlyConnections data of Some l \<Rightarrow> s4\<lparr>lineOnlyConnections := new_Set l\<rparr> | None \<Rightarrow> s4)
      in case d_nextId data of
           Some n \<Rightarrow> (if n \<noteq> 0 then s5\<lparr>nextId := n\<rparr> else s5)
         | None \<Rightarrow> s5)"

definition nodeData :: "person tree_core \<Rightarrow> persisted_person \<Rightarrow> node" where
  "nodeData s p =
     \<lparr>node_x = num_or (or_opt_num (pp_x p) (pp_cx p)) 0,
      node_y = num_or (or_opt_num (pp_y p) (pp_cy p)) 0,
      node_name = str_or (pp_name p) [],
      node_fatherName = str_or (or_opt_str (pp_fatherName p) (pp_father_name p)) [],
      node_surname = str_or (pp_surname p) [],
      node_maidenName = str_or (or_opt_str (or_opt_str (pp_maidenName p) (pp_birthName p)) (pp_birth_name p)) [],
      node_dob = str_or (pp_dob p) [],
      node_gender = str_or (pp_gender p) [],
      node_color = str_or (or_opt_str (or_opt_str (pp_color p) (pp_nodeColor p)) (pp_fill p))
                     (defaultColor (settings s)),
      node_radius = num_or (or_opt_num (or_opt_num (pp_radius p) (pp_nodeSize p)) (pp_r p))
                      (nodeRadius (settings s))\<rparr>"

definition relationshipData :: "persisted_person \<Rightarrow> person" where
  "relationshipData p =
     \<lparr>name = str_or (pp_name p) [],
      fatherName = str_or (or_opt_str (pp_fatherName p) (pp_father_name p)) [],
      surname = str_or (pp_surname p) [],
      maidenName = str_or (or_opt_str (or_opt_str (pp_maidenName p) (pp_birthName p)) (pp_birth_name p)) [],
      dob = str_or (pp_dob p) [],
      gender = str_or (pp_gender p) [],
      motherId = str_or (or_opt_str (pp_motherId p) (pp_mother_id p)) [],
      fatherId = str_or (or_opt_str (pp_fatherId p) (pp_father_id p)) [],
      spouseId = str_or (or_opt_str (pp_spouseId p) (pp_spouse_id p)) []\<rparr>"

text \<open>
  The body of the loop over \<^verbatim>\<open>persons\<close>, on the state with the two running values
  \<^verbatim>\<open>maxId\<close> and \<^verbatim>\<open>relationshipsFound\<close>.
\<close>

record load_acc =
  maxId :: int
  relationshipsFound :: nat
  acc_core :: "person tree_core"

definition restore_person :: "env \<Rightarrow> persisted_person \<Rightarrow> load_acc \<Rightarrow> load_acc" where
  "restore_person ev p a =
     (let s = acc_core a;
          s1 = setNode (pp_id p) (nodeData s p) s;
          rd = relationshipData p;
          found = relationshipsFound a
                  + (if motherId rd \<noteq> [] then 1 else 0)
                  + (if fatherId rd \<noteq> [] then 1 else 0)
                  + (if spouseId rd \<noteq> [] then 1 else 0);
          s2 = s1\<lparr>personData := map_set (pp_id p) rd (personData s1)\<rparr>;
          m = (case parseInt ev (remove1 CHR ''p'' (pp_id p)) of
                 Some numId \<Rightarrow> (if numId > maxId a then numId else maxId a)
               | None \<Rightarrow> maxId a)
      in \<lparr>maxId = m, relationshipsFound = found, acc_core = s2\<rparr>)"

text \<open>
  \<^verbatim>\<open>processLoadedData\<close>: the value returned (\<^verbatim>\<open>false\<close> at the guard, nothing
  otherwise) and the world after it. Without a saved camera the source centres on the
  content only when the renderer has nodes, and it has just cleared them, so nothing
  is done then. The writes to the page's controls are left out.
\<close>

definition processLoadedData :: "env \<Rightarrow> persisted \<Rightarrow> world \<Rightarrow> bool option \<times> world" where
  "processLoadedData ev data w =
     (if d_people data \<noteq> None \<and> d_persons data = None then (Some False, w)
      else
        (let s0 = (core w)\<lparr>nodes := [], connections := [], personData := [],
                           hiddenConnections := [], lineOnlyConnections := []\<rparr>;
             s1 = restore_view data (restore_settings data s0);
             persons = (case d_persons data of Some ps \<Rightarrow> ps | None \<Rightarrow> []);
             a = foldl (\<lambda>a p. restore_person ev p a)
                   \<lparr>maxId = 0, relationshipsFound = 0, acc_core = s1\<rparr> persons;
             s2 = (if maxId a \<ge> nextId (acc_core a)
                   then (acc_core a)\<lparr>nextId := maxId a + 1\<rparr> else acc_core a);
             s3 = regenerateConnections (snd (cleanupInvalidRelationships s2));
             s4 = (if length (connections s3) = 0 \<and> relationshipsFound a > 0
                   then (case d_personDataBackup data of
                           Some b \<Rightarrow> regenerateConnections (s3\<lparr>personData := new_Map b\<rparr>)
                         | None \<Rightarrow> s3)
                   else s3);
             s5 = pushUndoState (s4\<lparr>undoStack := [], redoStack := []\<rparr>)
         in (None, snd (saveToCache ev (w\<lparr>core := s5\<rparr>)))))"

datatype report =
    ConsoleWarn string
  | NotifySuccess string string
  | NotifyError string string

text \<open>
  \<^verbatim>\<open>loadCachedState\<close>: the value it resolves to, what it reports (its notifications
  and the console warnings of the format checks), and the world after it. Text that
  does not parse and the text \<^verbatim>\<open>null\<close> (reading a property of \<^verbatim>\<open>null\<close> throws) end
  in the \<^verbatim>\<open>catch\<close> block; \<^verbatim>\<open>processLoadedData\<close> returns a value only at its guard,
  where it warns.
\<close>

definition loadCachedState :: "env \<Rightarrow> world \<Rightarrow> bool \<times> report list \<times> world" where
  "loadCachedState ev w =
     (case map_get PrimaryKey (localStorage w) of
        None \<Rightarrow> (False, [], w)
      | Some EmptyText \<Rightarrow> (False, [], w)
      | Some Malformed \<Rightarrow>
          (False, [NotifyError ''Restore Failed'' ''Could not restore previous progress''], w)
      | Some JsonNull \<Rightarrow>
          (False, [NotifyError ''Restore Failed'' ''Could not restore previous progress''], w)
      | Some (JsonObj state) \<Rightarrow>
          if truthy_str (d_version state) \<or> d_persons state \<noteq> None
          then (True,
                (case fst (processLoadedData ev state w) of
                   Some r \<Rightarrow> [ConsoleWarn ''Unrecognized data format'']
                 | None \<Rightarrow> [])
                @ [NotifySuccess ''Progress Restored'' ''Your previous work has been restored''],
                snd (processLoadedData ev state w))
          else if d_people state \<noteq> None
          then (True, [ConsoleWarn ''Unrecognized data format, ignoring'',
                       NotifySuccess ''Progress Restored'' ''Your previous work has been restored''], w)
          else (False, [ConsoleWarn ''Unknown cached state format''], w))"

subsection \<open>Clearing\<close>

text \<open>
  \<^verbatim>\<open>clearCache\<close> removes the primary item and the backups; \<^verbatim>\<open>confirmClearAll\<close> empties
  the renderer and the store, resets the counter and the stacks, clears the cache and
  pushes the empty state. The selection, the buttons, the modal and the notification
  are the page's.
\<close>

definition clearCache :: "(skey \<times> doc) list \<Rightarrow> (skey \<times> doc) list" where
  "clearCache st = filter (\<lambda>e. case fst e of OtherKey k \<Rightarrow> True | _ \<Rightarrow> False) st"

definition confirmClearAll :: "world \<Rightarrow> world" where
  "confirmClearAll w =
     \<lparr>core = pushUndoState ((core w)\<lparr>nodes := [], connections := [], needsRedraw := True,
                                       personData := [], hiddenConnections := [],
                                       lineOnlyConnections := [], nextId := 1,
                                       undoStack := [], redoStack := []\<rparr>),
      localStorage = clearCache (localStorage w)\<rparr>"

section \<open>Examples\<close>

subsection \<open>States\<close>

definition ex_person :: "string \<Rightarrow> string \<Rightarrow> string \<Rightarrow> string \<Rightarrow> person" where
  "ex_person nm m f sp = empty_person\<lparr>name := nm, gender := ''male'', motherId := m, fatherId := f, spouseId := sp\<rparr>"

text \<open>Two persons who are each other's spouse.\<close>

definition ex_couple :: "person tree_core" where
  "ex_couple = initial_core
     \<lparr>nodes := [(''p1'', plain_node 100 100 ''Ann''), (''p2'', plain_node 300 100 ''Bob'')],
      personData := [(''p2'', ex_person ''Bob'' [] [] ''p1''), (''p1'', ex_person ''Ann'' [] [] ''p2'')]\<rparr>"

text \<open>
  A child and its mother with the pair hidden, and a line-only entry for the pair
  stored under the same key.
\<close>

definition ex_hidden :: "person tree_core" where
  "ex_hidden = initial_core
     \<lparr>nodes := [(''p1'', plain_node 100 100 ''Ann''), (''p2'', plain_node 100 300 ''Cid'')],
      personData := [(''p1'', ex_person ''Ann'' [] [] []), (''p2'', ex_person ''Cid'' ''p1'' [] [])],
      hiddenConnections := [''p1-p2''],
      lineOnlyConnections := [''p1-p2'']\<rparr>"

text \<open>
  Two unrelated persons; the line-only entry for them is stored as
  \<^verbatim>\<open>createConnection('line-only')\<close> writes it when \<^verbatim>\<open>p2\<close> was selected first, and the
  pair-key of the two is hidden.
\<close>

definition ex_hidden_line :: "person tree_core" where
  "ex_hidden_line = initial_core
     \<lparr>nodes := [(''p1'', plain_node 100 100 ''Ann''), (''p2'', plain_node 300 100 ''Bob'')],
      personData := [(''p1'', ex_person ''Ann'' [] [] []), (''p2'', ex_person ''Bob'' [] [] [])],
      hiddenConnections := [''p1-p2''],
      lineOnlyConnections := [''p2-p1'']\<rparr>"

text \<open>One person recorded as the person's own spouse.\<close>

definition ex_self_spouse :: "person tree_core" where
  "ex_self_spouse = initial_core
     \<lparr>nodes := [(''p1'', plain_node 100 100 ''Ann'')],
      personData := [(''p1'', ex_person ''Ann'' [] [] ''p1'')]\<rparr>"

text \<open>Two nodes joined by a line-only entry; with and without person records.\<close>

definition ex_lines :: "person tree_core" where
  "ex_lines = initial_core
     \<lparr>nodes := [(''p1'', plain_node 100 100 ''Ann''), (''p2'', plain_node 300 100 ''Bob'')],
      personData := [(''p1'', ex_person ''Ann'' [] [] []), (''p2'', ex_person ''Bob'' [] [] [])],
      lineOnlyConnections := [''p1-p2'']\<rparr>"

definition ex_lines_no_store :: "person tree_core" where
  "ex_lines_no_store = ex_lines\<lparr>personData := []\<rparr>"


text \<open>An edit that moves the camera, to tell snapshots apart.\<close>

definition ex_edit :: "nat \<Rightarrow> person tree_core" where
  "ex_edit i = initial_core\<lparr>camera := \<lparr>cam_x = real i, cam_y = 0, cam_scale = 1\<rparr>\<rparr>"

text \<open>
  Two persons without a spouse, their records at the references 0 and 1, selected for
  a connection.
\<close>

definition ex_heap :: heap_core where
  "ex_heap =
     \<lparr>live = initial_core
        \<lparr>nodes := [(''p1'', plain_node 100 100 ''Ann''), (''p2'', plain_node 300 100 ''Bob'')],
         personData := [(''p1'', 0), (''p2'', 1)],
         connectionPersonA := Some ''p1'', connectionPersonB := Some ''p2''\<rparr>,
      objs = (\<lambda>r. if r = 0 then ex_person ''Ann'' [] [] []
                   else if r = 1 then ex_person ''Bob'' [] [] [] else empty_person),
      next_ref = 2\<rparr>"

subsection \<open>Platforms and worlds\<close>

text \<open>
  A platform for the examples. The size of a serialization is counted from below, by
  the ids and names of its persons, which the text contains; the storage accepts a
  write while the items, counted the same way, stay within 5 MB; \<^verbatim>\<open>parseInt\<close> reads
  the leading decimal digits.
\<close>

definition person_text :: "persisted_person \<Rightarrow> nat" where
  "person_text p = length (pp_id p) + length (str_or (pp_name p) [])"

definition text_bytes :: "persisted \<Rightarrow> nat" where
  "text_bytes d = sum_list (map person_text (coalesce (d_persons d) []))"

definition doc_bytes :: "doc \<Rightarrow> nat" where
  "doc_bytes v = (case v of JsonObj d \<Rightarrow> text_bytes d | _ \<Rightarrow> 0)"

definition quota_accepts :: "nat \<Rightarrow> (skey \<times> doc) list \<Rightarrow> skey \<Rightarrow> doc \<Rightarrow> bool" where
  "quota_accepts q st k v = (sum_list (map (\<lambda>e. doc_bytes (snd e)) (map_set k v st)) \<le> q)"

definition digit_value :: "char \<Rightarrow> nat" where
  "digit_value c = length (takeWhile (\<lambda>d. d \<noteq> c) ''0123456789'')"

definition parse_decimal :: "string \<Rightarrow> int option" where
  "parse_decimal s =
     (case takeWhile (\<lambda>c. c \<in> set ''0123456789'') s of
        [] \<Rightarrow> None
      | ds \<Rightarrow> Some (int (foldl (\<lambda>n c. 10 * n + digit_value c) 0 ds)))"

definition ex_env :: env where
  "ex_env = \<lparr>now = 1000, blobSize = text_bytes, accepts = quota_accepts size_limit,
             parseInt = parse_decimal\<rparr>"

text \<open>
  The tree of five: Ann and Bob are spouses, Cid is Ann's child, Dan and Eve have no
  relations.
\<close>

definition tree5 :: "person tree_core" where
  "tree5 = initial_core
     \<lparr>nodes := [(''p1'', plain_node 100 100 ''Ann''), (''p2'', plain_node 300 100 ''Bob''),
                (''p3'', plain_node 200 300 ''Cid''), (''p4'', plain_node 500 100 ''Dan''),
                (''p5'', plain_node 700 (-50) ''Eve'')],
      personData := [(''p1'', ex_person ''Ann'' [] [] ''p2''), (''p2'', ex_person ''Bob'' [] [] ''p1''),
                     (''p3'', ex_person ''Cid'' ''p1'' [] []), (''p4'', ex_person ''Dan'' [] [] []),
                     (''p5'', ex_person ''Eve'' [] [] [])],
      connections := [Conn ''p1'' ''p2'' Spouse, Conn ''p3'' ''p1'' Parent],
      nextId := 6\<rparr>"

text \<open>A world that holds some tree, to be cleared before a load.\<close>

definition ex_world :: world where
  "ex_world = \<lparr>core = ex_couple, localStorage = []\<rparr>"

text \<open>
  Stored snapshots without a version and without \<^verbatim>\<open>persons\<close>: one with the property
  \<^verbatim>\<open>people\<close>, one with nothing the loader looks for.
\<close>

definition ex_people_world :: world where
  "ex_people_world =
     \<lparr>core = ex_couple,
      localStorage = [(PrimaryKey, JsonObj (empty_persisted\<lparr>d_people := Some [no_legacy\<lparr>pp_id := ''p1''\<rparr>]\<rparr>))]\<rparr>"

definition ex_unknown_world :: world where
  "ex_unknown_world = \<lparr>core = ex_couple, localStorage = [(PrimaryKey, JsonObj empty_persisted)]\<rparr>"



text \<open>
  Two persons whose ids are \<^verbatim>\<open>a-b\<close> and \<^verbatim>\<open>c\<close>, joined by a line-only entry under their
  pair-key.
\<close>

definition ex_dashed :: "person tree_core" where
  "ex_dashed = initial_core
     \<lparr>nodes := [(''a-b'', plain_node 100 100 ''Ann''), (''c'', plain_node 300 100 ''Bob'')],
      personData := [(''a-b'', ex_person ''Ann'' [] [] []), (''c'', ex_person ''Bob'' [] [] [])],
      lineOnlyConnections := [''a-b-c'']\<rparr>"

text \<open>
  The two persons of \<open>ex_heap\<close> selected in the other order, \<^verbatim>\<open>p2\<close> first, with their
  pair-key hidden.
\<close>

definition ex_heap_p2_first :: heap_core where
  "ex_heap_p2_first =
     ex_heap\<lparr>live := (live ex_heap)\<lparr>connectionPersonA := Some ''p2'', connectionPersonB := Some ''p1'',
                                      hiddenConnections := [''p1-p2'']\<rparr>\<rparr>"


section \<open>Connection derivation: what the loops compute\<close>

lemma add_unless_hidden_eq:
  "add_unless_hidden a b t s =
     s\<lparr>connections := connections s @ edge_if (hiddenConnections s) (nodes s) a b t\<rparr>"
  by (simp add: add_unless_hidden_def edge_if_def addConnection_def has_node_def)

lemma visit_person_eq:
  "visit_person e s =
     s\<lparr>connections := connections s @ person_edges (hiddenConnections s) (nodes s) e,
       personData := (if spouseId (snd e) = fst e
                      then map_set (fst e) ((snd e)\<lparr>spouseId := []\<rparr>) (personData s)
                      else personData s)\<rparr>"
  by (simp add: visit_person_def Let_def add_unless_hidden_eq person_edges_def)

lemma visit_line_only_eq:
  "visit_line_only k s =
     s\<lparr>connections := connections s @ List.map_filter (line_only_edge (hiddenConnections s) (nodes s)) [k]\<rparr>"
  by (simp add: visit_line_only_def line_only_edge_def key_ids_def addConnection_def has_node_def
        List.map_filter_simps split: list.split)

lemma map_filter_append: "List.map_filter f (xs @ ys) = List.map_filter f xs @ List.map_filter f ys"
  by (simp add: List.map_filter_def)

lemma fold_visit_person:
  "foldl (\<lambda>t e. visit_person e t) s es =
     s\<lparr>connections := connections s @ concat (map (person_edges (hiddenConnections s) (nodes s)) es),
       personData := set_each (\<lambda>e. spouseId (snd e) = fst e) (\<lambda>e. (snd e)\<lparr>spouseId := []\<rparr>) es (personData s)\<rparr>"
proof (induction es arbitrary: s)
  case Nil
  show ?case by simp
next
  case (Cons e es)
  show ?case unfolding foldl_Cons Cons.IH by (simp add: visit_person_eq)
qed

lemma fold_visit_line_only:
  "foldl (\<lambda>t k. visit_line_only k t) s ks =
     s\<lparr>connections := connections s @ List.map_filter (line_only_edge (hiddenConnections s) (nodes s)) ks\<rparr>"
proof (induction ks arbitrary: s)
  case Nil
  show ?case by (simp add: List.map_filter_simps)
next
  case (Cons k ks)
  have "List.map_filter (line_only_edge (hiddenConnections s) (nodes s)) (k # ks)
        = List.map_filter (line_only_edge (hiddenConnections s) (nodes s)) [k]
          @ List.map_filter (line_only_edge (hiddenConnections s) (nodes s)) ks"
    using map_filter_append [of _ "[k]" ks] by simp
  then show ?case unfolding foldl_Cons Cons.IH by (simp add: visit_line_only_eq)
qed

lemma regenerateConnections_eq:
  "regenerateConnections s =
     (if personData s = [] then s\<lparr>connections := []\<rparr>
      else s\<lparr>connections :=
               concat (map (person_edges (hiddenConnections s) (nodes s)) (personData s))
               @ List.map_filter (line_only_edge (hiddenConnections s) (nodes s)) (lineOnlyConnections s),
             personData := set_each (\<lambda>e. spouseId (snd e) = fst e) (\<lambda>e. (snd e)\<lparr>spouseId := []\<rparr>)
                             (personData s) (personData s),
             needsRedraw := True\<rparr>)"
  by (simp add: regenerateConnections_def Let_def clearConnections_def fold_visit_person
        fold_visit_line_only)

lemma map_set_at:
  "k \<notin> fst ` set xs \<Longrightarrow> map_set k v (xs @ (k, w) # ys) = xs @ (k, v) # ys"
  by (induction xs) auto

lemma set_each_suffix:
  fixes g :: "'k \<times> 'v \<Rightarrow> 'k \<times> 'v"
  assumes g: "\<And>e. g e = (if p e then (fst e, f e) else e)"
  shows "distinct (map fst (pre @ es)) \<Longrightarrow> set_each p f es (map g pre @ es) = map g (pre @ es)"
proof (induction es arbitrary: pre)
  case Nil
  show ?case by simp
next
  case (Cons e es)
  have fst_g: "\<And>x. fst (g x) = fst x" by (simp add: g)
  have notin: "fst e \<notin> fst ` set (map g pre)"
    using Cons.prems by (auto simp: fst_g image_iff)
  have upd: "(if p e then map_set (fst e) (f e) (map g pre @ e # es) else map g pre @ e # es)
             = map g (pre @ [e]) @ es"
  proof (cases "p e")
    case True
    have "map_set (fst e) (f e) (map g pre @ (fst e, snd e) # es) = map g pre @ (fst e, f e) # es"
      using notin by (rule map_set_at)
    with True show ?thesis by (simp add: g)
  next
    case False
    then show ?thesis by (simp add: g)
  qed
  have d: "distinct (map fst ((pre @ [e]) @ es))" using Cons.prems by simp
  have "set_each p f (e # es) (map g pre @ e # es) = set_each p f es (map g (pre @ [e]) @ es)"
    by (simp only: set_each.simps upd)
  also have "\<dots> = map g ((pre @ [e]) @ es)" by (rule Cons.IH [OF d])
  finally show ?case by simp
qed

lemma set_each_self:
  assumes "\<And>e. g e = (if p e then (fst e, f e) else e)" and "distinct (map fst m)"
  shows "set_each p f m m = map g m"
  using set_each_suffix [of g p f "[]" m] assms by simp

lemma fix_all_self:
  "distinct (map fst m) \<Longrightarrow>
     set_each (\<lambda>e. spouseId (snd e) = fst e) (\<lambda>e. (snd e)\<lparr>spouseId := []\<rparr>) m m = map unself m"
  by (rule set_each_self) (simp_all add: unself_def)

lemma concat_map_single:
  "distinct xs \<Longrightarrow> e \<in> set xs \<Longrightarrow> (\<And>x. x \<in> set xs \<Longrightarrow> x \<noteq> e \<Longrightarrow> g x = []) \<Longrightarrow>
     concat (map g xs) = g e"
proof (induction xs)
  case Nil
  then show ?case by simp
next
  case (Cons a xs)
  show ?case
  proof (cases "a = e")
    case True
    have "concat (map g xs) = []" using Cons.prems True by (auto intro: Cons.prems(3))
    with True show ?thesis by simp
  next
    case False
    have "g a = []" using Cons.prems(3) [of a] False by simp
    moreover have "concat (map g xs) = g e" using Cons False by auto
    ultimately show ?thesis by simp
  qed
qed

lemma getConnectionKey_sym: "getConnectionKey a b = getConnectionKey b a"
  by (auto simp: getConnectionKey_def)

lemma line_only_edge_type:
  "line_only_edge hid ns k = Some c \<Longrightarrow> conn_type c = LineOnly"
  by (auto simp: line_only_edge_def split: if_splits option.splits)

lemma map_filter_line_only_type:
  "c \<in> set (List.map_filter (line_only_edge hid ns) ks) \<Longrightarrow> conn_type c = LineOnly"
  by (auto simp: List.map_filter_def dest: line_only_edge_type)

lemma person_edges_type:
  "c \<in> set (person_edges hid ns e) \<Longrightarrow> conn_type c \<noteq> LineOnly"
  by (auto simp: person_edges_def edge_if_def split: if_splits)

lemma filter_spouse_person_edges:
  "filter (\<lambda>c. conn_type c = Spouse \<and> between A B c) (person_edges hid ns e) =
     (if spouseId (snd e) \<noteq> [] \<and> spouseId (snd e) \<noteq> fst e \<and> fst e < spouseId (snd e)
         \<and> between A B (Conn (fst e) (spouseId (snd e)) Spouse)
      then edge_if hid ns (fst e) (spouseId (snd e)) Spouse else [])"
  by (auto simp: person_edges_def edge_if_def between_def)

lemma filter_spouse_line_only:
  "filter (\<lambda>c. conn_type c = Spouse \<and> P c) (List.map_filter (line_only_edge hid ns) ks) = []"
  by (auto simp: filter_empty_conv dest: map_filter_line_only_type)

lemma spouse_edge_once:
  assumes dist: "distinct (map fst (personData s))"
    and A: "(A, a) \<in> set (personData s)" and B: "(B, b) \<in> set (personData s)"
    and sa: "spouseId a = B" and sb: "spouseId b = A" and ne: "A \<noteq> B"
    and nA: "has_node A s" and nB: "has_node B s"
    and vis: "getConnectionKey A B \<notin> set (hiddenConnections s)"
  shows "filter (\<lambda>c. conn_type c = Spouse \<and> between A B c) (connections (regenerateConnections s))
         = [if A < B then Conn A B Spouse else Conn B A Spouse]"
proof -
  let ?hid = "hiddenConnections s" and ?ns = "nodes s"
  let ?P = "\<lambda>c. conn_type c = Spouse \<and> between A B c"
  let ?g = "\<lambda>e. filter ?P (person_edges ?hid ?ns e)"
  have nonempty: "personData s \<noteq> []" using A by auto
  have dxs: "distinct (personData s)" using dist by (rule distinct_map [THEN iffD1, THEN conjunct1])
  have uniq: "\<And>k v w. (k, v) \<in> set (personData s) \<Longrightarrow> (k, w) \<in> set (personData s) \<Longrightarrow> v = w"
    using dist by (meson eq_key_imp_eq_value)
  have conns: "filter ?P (connections (regenerateConnections s)) = concat (map ?g (personData s))"
    using nonempty by (simp add: regenerateConnections_eq filter_spouse_line_only) (simp add: filter_concat comp_def)
  define lo hi where "lo = (if A < B then A else B)" and "hi = (if A < B then B else A)"
  define el where "el = (if A < B then (A, a) else (B, b))"
  have lohi: "lo < hi" using ne by (auto simp: lo_def hi_def)
  have el_in: "el \<in> set (personData s)" using A B by (simp add: el_def)
  have el_fst: "fst el = lo" and el_sp: "spouseId (snd el) = hi"
    using sa sb by (auto simp: el_def lo_def hi_def)
  have betw: "\<And>x y t. between A B (Conn x y t) = ((x = lo \<and> y = hi) \<or> (x = hi \<and> y = lo))"
    by (auto simp: between_def lo_def hi_def)
  have key: "getConnectionKey lo hi \<notin> set ?hid"
    using vis by (auto simp: lo_def hi_def getConnectionKey_sym)
  have nodes: "map_has lo ?ns" "map_has hi ?ns"
    using nA nB by (auto simp: lo_def hi_def has_node_def)
  have hi_ne: "hi \<noteq> []" using lohi by auto
  have g_el: "?g el = [Conn lo hi Spouse]"
    using lohi hi_ne key nodes
    by (simp add: filter_spouse_person_edges el_fst el_sp betw edge_if_def)
  have others: "?g x = []" if x: "x \<in> set (personData s)" and xne: "x \<noteq> el" for x
  proof (rule ccontr)
    assume "?g x \<noteq> []"
    then have c: "fst x < spouseId (snd x)"
      and b: "(fst x = lo \<and> spouseId (snd x) = hi) \<or> (fst x = hi \<and> spouseId (snd x) = lo)"
      by (auto simp: filter_spouse_person_edges betw split: if_splits)
    from b c lohi have fx: "fst x = lo" by auto
    have "(lo, snd x) \<in> set (personData s)" using x fx by (metis prod.collapse)
    moreover have "(lo, snd el) \<in> set (personData s)" using el_in el_fst by (metis prod.collapse)
    ultimately have "snd x = snd el" by (rule uniq)
    with fx el_fst have "x = el" by (simp add: prod_eq_iff)
    with xne show False by simp
  qed
  have "concat (map ?g (personData s)) = ?g el"
    using dxs el_in others by (rule concat_map_single)
  with conns g_el show ?thesis by (simp add: lo_def hi_def)
qed

lemma ex_couple_nodes: "has_node ''p1'' ex_couple \<and> has_node ''p2'' ex_couple"
  by (simp add: ex_couple_def initial_core_def has_node_def map_has_def)

lemma reorder_distinct_keys:
  assumes d: "distinct (map fst (m :: ('k \<times> 'v) list))" and s: "set p = set m" and l: "length p = length m"
  shows "distinct (map fst p)"
proof -
  have "card (set (map fst p)) = card (set (map fst m))" using s by simp
  also have "\<dots> = length (map fst m)" using d by (rule distinct_card)
  also have "\<dots> = length (map fst p)" using l by simp
  finally show ?thesis by (rule card_distinct)
qed

text \<open>
  C1. One run of \<^verbatim>\<open>regenerateConnections\<close> derives exactly one spouse edge for a
  mutual spouse pair whose two nodes exist and whose pair-key is not hidden, and
  that edge starts at the partner whose id is the smaller one. The store is any
  association list with distinct keys, and the same holds for every other order
  \<open>p\<close> of its entries, that is, in whatever order the persons are visited.
\<close>

theorem regenerateConnections_one_spouse_edge:
  assumes dist: "distinct (map fst (personData s))"
    and A: "(A, a) \<in> set (personData s)" and B: "(B, b) \<in> set (personData s)"
    and sa: "spouseId a = B" and sb: "spouseId b = A" and ne: "A \<noteq> B"
    and nA: "has_node A s" and nB: "has_node B s"
    and vis: "getConnectionKey A B \<notin> set (hiddenConnections s)"
  shows "filter (\<lambda>c. conn_type c = Spouse \<and> between A B c) (connections (regenerateConnections s))
           = [if A < B then Conn A B Spouse else Conn B A Spouse]
       \<and> (\<forall>p. set p = set (personData s) \<and> length p = length (personData s) \<longrightarrow>
             filter (\<lambda>c. conn_type c = Spouse \<and> between A B c)
               (connections (regenerateConnections (s\<lparr>personData := p\<rparr>)))
             = [if A < B then Conn A B Spouse else Conn B A Spouse])"
proof (intro conjI allI impI)
  show "filter (\<lambda>c. conn_type c = Spouse \<and> between A B c) (connections (regenerateConnections s))
           = [if A < B then Conn A B Spouse else Conn B A Spouse]"
    using assms by (rule spouse_edge_once)
next
  fix p
  assume p: "set p = set (personData s) \<and> length p = length (personData s)"
  let ?s = "s\<lparr>personData := p\<rparr>"
  have d: "distinct (map fst (personData ?s))"
    using reorder_distinct_keys [OF dist] p by simp
  have A': "(A, a) \<in> set (personData ?s)" and B': "(B, b) \<in> set (personData ?s)"
    using A B p by simp_all
  have nA': "has_node A ?s" and nB': "has_node B ?s"
    using nA nB by (simp_all add: has_node_def)
  have vis': "getConnectionKey A B \<notin> set (hiddenConnections ?s)" using vis by simp
  show "filter (\<lambda>c. conn_type c = Spouse \<and> between A B c) (connections (regenerateConnections ?s))
           = [if A < B then Conn A B Spouse else Conn B A Spouse]"
    using d A' B' sa sb ne nA' nB' vis' by (rule spouse_edge_once)
qed

theorem regenerateConnections_one_spouse_edge_witness:
  "filter (\<lambda>c. conn_type c = Spouse \<and> between ''p2'' ''p1'' c)
     (connections (regenerateConnections ex_couple)) = [Conn ''p1'' ''p2'' Spouse]
   \<and> filter (\<lambda>c. conn_type c = Spouse \<and> between ''p2'' ''p1'' c)
     (connections (regenerateConnections (ex_couple\<lparr>personData := rev (personData ex_couple)\<rparr>)))
     = [Conn ''p1'' ''p2'' Spouse]"
proof -
  have d: "distinct (map fst (personData ex_couple))"
    by (simp add: ex_couple_def initial_core_def)
  have A: "(''p2'', ex_person ''Bob'' [] [] ''p1'') \<in> set (personData ex_couple)"
    by (simp add: ex_couple_def initial_core_def)
  have B: "(''p1'', ex_person ''Ann'' [] [] ''p2'') \<in> set (personData ex_couple)"
    by (simp add: ex_couple_def initial_core_def)
  have sa: "spouseId (ex_person ''Bob'' [] [] ''p1'') = ''p1''"
    and sb: "spouseId (ex_person ''Ann'' [] [] ''p2'') = ''p2''"
    by (simp_all add: ex_person_def empty_person_def)
  have ne: "''p2'' \<noteq> ''p1''" by simp
  have vis: "getConnectionKey ''p2'' ''p1'' \<notin> set (hiddenConnections ex_couple)"
    by (simp add: ex_couple_def initial_core_def)
  have lt: "\<not> ''p2'' < ''p1''" by simp
  have r: "set (rev (personData ex_couple)) = set (personData ex_couple)
           \<and> length (rev (personData ex_couple)) = length (personData ex_couple)" by simp
  note th = regenerateConnections_one_spouse_edge
      [OF d A B sa sb ne conjunct2 [OF ex_couple_nodes] conjunct1 [OF ex_couple_nodes] vis]
  from th [THEN conjunct1] th [THEN conjunct2, rule_format, OF r] lt
  show ?thesis by simp
qed

lemma regenerateConnections_personData:
  "distinct (map fst (personData s)) \<Longrightarrow> personData (regenerateConnections s) = map unself (personData s)"
  by (simp add: regenerateConnections_eq fix_all_self)

lemma person_edges_cases:
  "c \<in> set (person_edges hid ns e) \<Longrightarrow>
     \<exists>x t. c = Conn (fst e) x t \<and> t \<noteq> LineOnly \<and> getConnectionKey (fst e) x \<notin> set hid"
  by (auto simp: person_edges_def edge_if_def split: if_splits)

lemma line_only_edge_Some:
  "line_only_edge hid ns k = Some c \<Longrightarrow>
     k \<notin> set hid \<and> (\<exists>a b. key_ids k = Some (a, b) \<and> c = Conn a b LineOnly)"
  by (cases "key_ids k") (auto simp: line_only_edge_def split: if_splits)

lemma map_filter_mem:
  "c \<in> set (List.map_filter f ks) \<Longrightarrow> \<exists>k \<in> set ks. f k = Some c"
  by (auto simp: List.map_filter_def)

lemma map_filter_line_only_cases:
  "c \<in> set (List.map_filter (line_only_edge hid ns) ks) \<Longrightarrow>
     \<exists>k a b. k \<in> set ks \<and> k \<notin> set hid \<and> key_ids k = Some (a, b) \<and> c = Conn a b LineOnly"
  using map_filter_mem [of c "line_only_edge hid ns" ks] line_only_edge_Some [of hid ns _ c]
  by blast

lemma between_key:
  "between A B (Conn x y t) \<Longrightarrow> getConnectionKey x y = getConnectionKey A B"
  by (auto simp: between_def getConnectionKey_sym)

text \<open>
  What a hidden pair-key suppresses. When the pair-key of \<open>A\<close> and \<open>B\<close> is hidden, no
  parent edge and no spouse edge joins them after a derivation, and no edge at all
  when each line-only entry with the ids \<open>A\<close> and \<open>B\<close> is in \<^verbatim>\<open>hiddenConnections\<close> too.
\<close>

lemma hidden_pair_no_edges:
  assumes hid: "getConnectionKey A B \<in> set (hiddenConnections s)"
    and dist: "distinct (map fst (personData s))"
  shows "filter (\<lambda>c. between A B c \<and> conn_type c \<noteq> LineOnly) (connections (regenerateConnections s)) = []
       \<and> ((\<forall>k \<in> set (lineOnlyConnections s).
              (key_ids k = Some (A, B) \<or> key_ids k = Some (B, A)) \<longrightarrow> k \<in> set (hiddenConnections s))
            \<longrightarrow> filter (between A B) (connections (regenerateConnections s)) = [])
       \<and> personData (regenerateConnections s) = map unself (personData s)"
proof (intro conjI impI)
  let ?pe = "concat (map (person_edges (hiddenConnections s) (nodes s)) (personData s))"
  let ?le = "List.map_filter (line_only_edge (hiddenConnections s) (nodes s)) (lineOnlyConnections s)"
  have sub: "set (connections (regenerateConnections s)) \<subseteq> set ?pe \<union> set ?le"
    by (simp add: regenerateConnections_eq)
  have no_family: "\<not> between A B c" if "c \<in> set ?pe" for c
  proof
    assume b: "between A B c"
    from that obtain e where "c \<in> set (person_edges (hiddenConnections s) (nodes s) e)" by auto
    then obtain x t where c: "c = Conn (fst e) x t"
      and k: "getConnectionKey (fst e) x \<notin> set (hiddenConnections s)"
      using person_edges_cases by blast
    from b c have "getConnectionKey (fst e) x = getConnectionKey A B" by (simp add: between_key)
    with k hid show False by simp
  qed
  show "filter (\<lambda>c. between A B c \<and> conn_type c \<noteq> LineOnly) (connections (regenerateConnections s)) = []"
  proof -
    have "\<not> (between A B c \<and> conn_type c \<noteq> LineOnly)" if "c \<in> set (connections (regenerateConnections s))" for c
      using that sub no_family map_filter_line_only_type by blast
    then show ?thesis by (simp add: filter_empty_conv)
  qed
  show "filter (between A B) (connections (regenerateConnections s)) = []"
    if all: "\<forall>k \<in> set (lineOnlyConnections s).
              (key_ids k = Some (A, B) \<or> key_ids k = Some (B, A)) \<longrightarrow> k \<in> set (hiddenConnections s)"
  proof -
    have no_line: "\<not> between A B c" if "c \<in> set ?le" for c
    proof
      assume b: "between A B c"
      from that obtain k x y where k: "k \<in> set (lineOnlyConnections s)" "k \<notin> set (hiddenConnections s)"
        and ids: "key_ids k = Some (x, y)" and c: "c = Conn x y LineOnly"
        using map_filter_line_only_cases by blast
      from b c have "(x, y) = (A, B) \<or> (x, y) = (B, A)" by (auto simp: between_def)
      with ids have "key_ids k = Some (A, B) \<or> key_ids k = Some (B, A)" by auto
      with all k show False by blast
    qed
    have "\<not> between A B c" if "c \<in> set (connections (regenerateConnections s))" for c
      using that sub no_family no_line by blast
    then show ?thesis by (simp add: filter_empty_conv)
  qed
  show "personData (regenerateConnections s) = map unself (personData s)"
    using dist by (rule regenerateConnections_personData)
qed

lemma hidden_pair_no_edges_example:
  "getConnectionKey ''p2'' ''p1'' \<in> set (hiddenConnections ex_hidden)
   \<and> filter (between ''p2'' ''p1'') (connections (regenerateConnections ex_hidden)) = []
   \<and> map (\<lambda>e. (fst e, motherId (snd e))) (personData (regenerateConnections ex_hidden))
       = [(''p1'', []), (''p2'', ''p1'')]"
proof -
  have hid: "getConnectionKey ''p2'' ''p1'' \<in> set (hiddenConnections ex_hidden)"
    by (simp add: ex_hidden_def initial_core_def getConnectionKey_def)
  have dist: "distinct (map fst (personData ex_hidden))"
    by (simp add: ex_hidden_def initial_core_def)
  have lines: "\<forall>k \<in> set (lineOnlyConnections ex_hidden).
      (key_ids k = Some (''p2'', ''p1'') \<or> key_ids k = Some (''p1'', ''p2'')) \<longrightarrow> k \<in> set (hiddenConnections ex_hidden)"
    by (simp add: ex_hidden_def initial_core_def)
  have pd: "map (\<lambda>e. (fst e, motherId (snd e))) (map unself (personData ex_hidden)) = [(''p1'', []), (''p2'', ''p1'')]"
    by (simp add: ex_hidden_def initial_core_def unself_def ex_person_def empty_person_def)
  from hidden_pair_no_edges [OF hid dist] lines hid pd show ?thesis by simp
qed

text \<open>
  C4 at a failing input. \<^verbatim>\<open>createConnection('line-only')\<close> with \<^verbatim>\<open>p2\<close> selected first
  stores the entry \<^verbatim>\<open>p2-p1\<close>, not the pair-key \<^verbatim>\<open>p1-p2\<close> that
  \<^verbatim>\<open>getConnectionKey\<close> gives. With that entry in \<^verbatim>\<open>lineOnlyConnections\<close> and the
  pair-key of the two persons in \<^verbatim>\<open>hiddenConnections\<close>, a derivation still yields a
  line-only edge between them.
\<close>

theorem hidden_pair_line_only_edge:
  "lineOnlyConnections (live (createConnection KLineOnly ex_heap_p2_first)) = [''p2-p1'']
   \<and> hiddenConnections (live (createConnection KLineOnly ex_heap_p2_first)) = [''p1-p2'']
   \<and> lineOnlyConnections ex_hidden_line = [''p2-p1'']
   \<and> getConnectionKey ''p1'' ''p2'' \<in> set (hiddenConnections ex_hidden_line)
   \<and> filter (between ''p1'' ''p2'') (connections (regenerateConnections ex_hidden_line))
       = [Conn ''p2'' ''p1'' LineOnly]"
  by (simp add: regenerateConnections_eq ex_hidden_line_def initial_core_def person_edges_def
        ex_person_def empty_person_def getConnectionKey_def line_only_edge_def
        key_ids_def map_has_def between_def ex_heap_p2_first_def ex_heap_def createConnection_def
        get_or_new_def map_get_def on_live_def addConnection_def set_add_def Let_def)

text \<open>
  C5 (as amended). \<^verbatim>\<open>regenerateConnections\<close> writes the edge list and the redraw
  flag, and in the store only the \<^verbatim>\<open>spouseId\<close> of a record that names the person
  itself as spouse, which it clears. Everything else, the two suppression sets
  included, is as before; a store without a self-spouse record is unchanged.
\<close>

theorem regenerateConnections_frame:
  assumes dist: "distinct (map fst (personData s))"
  shows "regenerateConnections s =
           s\<lparr>connections := connections (regenerateConnections s),
             needsRedraw := needsRedraw (regenerateConnections s),
             personData := map unself (personData s)\<rparr>
       \<and> ((\<forall>e \<in> set (personData s). spouseId (snd e) \<noteq> fst e)
            \<longrightarrow> personData (regenerateConnections s) = personData s)"
proof (intro conjI impI)
  show "regenerateConnections s =
           s\<lparr>connections := connections (regenerateConnections s),
             needsRedraw := needsRedraw (regenerateConnections s),
             personData := map unself (personData s)\<rparr>"
    using dist by (simp add: regenerateConnections_eq fix_all_self)
  show "personData (regenerateConnections s) = personData s"
    if "\<forall>e \<in> set (personData s). spouseId (snd e) \<noteq> fst e"
  proof -
    have "map unself (personData s) = personData s"
      using that by (simp add: unself_def map_idI)
    with dist show ?thesis by (simp add: regenerateConnections_personData)
  qed
qed

theorem regenerateConnections_frame_witness:
  "personData (regenerateConnections ex_couple) = personData ex_couple
   \<and> hiddenConnections (regenerateConnections ex_couple) = hiddenConnections ex_couple
   \<and> lineOnlyConnections (regenerateConnections ex_couple) = lineOnlyConnections ex_couple
   \<and> nodes (regenerateConnections ex_couple) = nodes ex_couple"
proof -
  have dist: "distinct (map fst (personData ex_couple))"
    by (simp add: ex_couple_def initial_core_def)
  have ns: "\<forall>e \<in> set (personData ex_couple). spouseId (snd e) \<noteq> fst e"
    by (simp add: ex_couple_def initial_core_def ex_person_def empty_person_def)
  from regenerateConnections_frame [OF dist] ns
  have eq: "regenerateConnections ex_couple =
           ex_couple\<lparr>connections := connections (regenerateConnections ex_couple),
             needsRedraw := needsRedraw (regenerateConnections ex_couple),
             personData := map unself (personData ex_couple)\<rparr>"
    and pd: "personData (regenerateConnections ex_couple) = personData ex_couple" by blast+
  have "hiddenConnections (regenerateConnections ex_couple) = hiddenConnections ex_couple"
    by (subst eq) simp
  moreover have "lineOnlyConnections (regenerateConnections ex_couple) = lineOnlyConnections ex_couple"
    by (subst eq) simp
  moreover have "nodes (regenerateConnections ex_couple) = nodes ex_couple"
    by (subst eq) simp
  ultimately show ?thesis using pd by simp
qed

theorem regenerateConnections_self_spouse_counterexample:
  "personData ex_self_spouse = [(''p1'', ex_person ''Ann'' [] [] ''p1'')]
   \<and> personData (regenerateConnections ex_self_spouse) = [(''p1'', ex_person ''Ann'' [] [] [])]
   \<and> personData (regenerateConnections ex_self_spouse) \<noteq> personData ex_self_spouse"
  by (simp add: regenerateConnections_eq ex_self_spouse_def initial_core_def ex_person_def empty_person_def)

lemma split_on_no_sep: "c \<notin> set a \<Longrightarrow> split_on c a = [a]"
  by (induction a) auto

lemma split_on_first: "c \<notin> set a \<Longrightarrow> split_on c (a @ c # rest) = a # split_on c rest"
  by (induction a) auto

lemma key_ids_joined:
  assumes "CHR ''-'' \<notin> set a" and "CHR ''-'' \<notin> set b"
  shows "key_ids (a @ ''-'' @ b) = Some (a, b)"
  using assms by (simp add: key_ids_def split_on_first split_on_no_sep)

lemma key_ids_pair_key:
  assumes "CHR ''-'' \<notin> set a" and "CHR ''-'' \<notin> set b"
  shows "key_ids (getConnectionKey a b) = Some (if a < b then (a, b) else (b, a))"
  using assms key_ids_joined [of a b] key_ids_joined [of b a] by (simp add: getConnectionKey_def)

lemma line_only_part:
  "personData s \<noteq> [] \<Longrightarrow>
     filter (\<lambda>c. conn_type c = LineOnly) (connections (regenerateConnections s))
       = List.map_filter (line_only_edge (hiddenConnections s) (nodes s)) (lineOnlyConnections s)"
proof -
  assume ne: "personData s \<noteq> []"
  have a: "filter (\<lambda>c. conn_type c = LineOnly)
             (concat (map (person_edges (hiddenConnections s) (nodes s)) (personData s))) = []"
    by (auto simp: filter_empty_conv dest: person_edges_type)
  have b: "filter (\<lambda>c. conn_type c = LineOnly)
             (List.map_filter (line_only_edge (hiddenConnections s) (nodes s)) (lineOnlyConnections s))
           = List.map_filter (line_only_edge (hiddenConnections s) (nodes s)) (lineOnlyConnections s)"
    by (auto simp: filter_id_conv dest: map_filter_line_only_type)
  from ne a b show ?thesis by (simp add: regenerateConnections_eq)
qed

text \<open>
  C9 (as amended). When the store holds at least one person record, a pair-key in
  \<^verbatim>\<open>lineOnlyConnections\<close> that is not in \<^verbatim>\<open>hiddenConnections\<close> and whose two ids both
  exist as nodes and contain no \<^verbatim>\<open>-\<close> yields exactly one line-only edge: the line-only
  edges of the derivation are those of the entries before it, then that one edge,
  then those of the entries after it. They are the same for every other store that
  is not empty.
\<close>

theorem line_only_edges_derived:
  assumes ne: "personData s \<noteq> []"
    and at: "lineOnlyConnections s = pre @ getConnectionKey A B # post"
    and vis: "getConnectionKey A B \<notin> set (hiddenConnections s)"
    and dA: "CHR ''-'' \<notin> set A" and dB: "CHR ''-'' \<notin> set B"
    and nA: "has_node A s" and nB: "has_node B s"
  shows "filter (\<lambda>c. conn_type c = LineOnly) (connections (regenerateConnections s))
           = filter (\<lambda>c. conn_type c = LineOnly)
               (connections (regenerateConnections (s\<lparr>lineOnlyConnections := pre\<rparr>)))
             @ [if A < B then Conn A B LineOnly else Conn B A LineOnly]
             @ filter (\<lambda>c. conn_type c = LineOnly)
                 (connections (regenerateConnections (s\<lparr>lineOnlyConnections := post\<rparr>)))
       \<and> (\<forall>pd. pd \<noteq> [] \<longrightarrow>
             filter (\<lambda>c. conn_type c = LineOnly)
               (connections (regenerateConnections (s\<lparr>personData := pd\<rparr>)))
             = filter (\<lambda>c. conn_type c = LineOnly) (connections (regenerateConnections s)))"
proof (intro conjI allI impI)
  let ?f = "line_only_edge (hiddenConnections s) (nodes s)"
  have k: "?f (getConnectionKey A B) = Some (if A < B then Conn A B LineOnly else Conn B A LineOnly)"
    using vis nA nB by (simp add: line_only_edge_def key_ids_pair_key [OF dA dB] has_node_def)
  have "List.map_filter ?f (pre @ getConnectionKey A B # post)
        = List.map_filter ?f pre @ [if A < B then Conn A B LineOnly else Conn B A LineOnly]
          @ List.map_filter ?f post"
    using map_filter_append [of ?f pre "getConnectionKey A B # post"] k
    by (simp add: List.map_filter_simps)
  then show "filter (\<lambda>c. conn_type c = LineOnly) (connections (regenerateConnections s))
           = filter (\<lambda>c. conn_type c = LineOnly)
               (connections (regenerateConnections (s\<lparr>lineOnlyConnections := pre\<rparr>)))
             @ [if A < B then Conn A B LineOnly else Conn B A LineOnly]
             @ filter (\<lambda>c. conn_type c = LineOnly)
                 (connections (regenerateConnections (s\<lparr>lineOnlyConnections := post\<rparr>)))"
    using ne at by (simp add: line_only_part)
next
  fix pd :: "(string \<times> person) list"
  assume "pd \<noteq> []"
  then show "filter (\<lambda>c. conn_type c = LineOnly)
               (connections (regenerateConnections (s\<lparr>personData := pd\<rparr>)))
             = filter (\<lambda>c. conn_type c = LineOnly) (connections (regenerateConnections s))"
    using ne by (simp add: line_only_part)
qed

theorem line_only_edges_derived_witness:
  "filter (\<lambda>c. conn_type c = LineOnly) (connections (regenerateConnections ex_lines))
     = [Conn ''p1'' ''p2'' LineOnly]
   \<and> filter (\<lambda>c. conn_type c = LineOnly)
       (connections (regenerateConnections (ex_lines\<lparr>personData := personData ex_couple\<rparr>)))
     = [Conn ''p1'' ''p2'' LineOnly]"
proof -
  have ne: "personData ex_lines \<noteq> []" by (simp add: ex_lines_def initial_core_def)
  have at: "lineOnlyConnections ex_lines = [] @ getConnectionKey ''p2'' ''p1'' # []"
    by (simp add: ex_lines_def initial_core_def getConnectionKey_def)
  have vis: "getConnectionKey ''p2'' ''p1'' \<notin> set (hiddenConnections ex_lines)"
    by (simp add: ex_lines_def initial_core_def)
  have d2: "CHR ''-'' \<notin> set ''p2''" and d1: "CHR ''-'' \<notin> set ''p1''" by simp_all
  have n2: "has_node ''p2'' ex_lines" and n1: "has_node ''p1'' ex_lines"
    by (simp_all add: ex_lines_def initial_core_def has_node_def map_has_def)
  have e: "personData (ex_lines\<lparr>lineOnlyConnections := []\<rparr>) \<noteq> []"
    by (simp add: ex_lines_def initial_core_def)
  have none: "filter (\<lambda>c. conn_type c = LineOnly)
                (connections (regenerateConnections (ex_lines\<lparr>lineOnlyConnections := []\<rparr>))) = []"
    using line_only_part [OF e] by (simp add: List.map_filter_simps)
  have pc: "personData ex_couple \<noteq> []" by (simp add: ex_couple_def initial_core_def)
  note th = line_only_edges_derived [OF ne at vis d2 d1 n2 n1]
  from th [THEN conjunct1] th [THEN conjunct2, rule_format, OF pc] none
  show ?thesis by simp
qed

theorem line_only_edges_counterexample:
  "''p1-p2'' \<in> set (lineOnlyConnections ex_lines_no_store)
   \<and> ''p1-p2'' \<notin> set (hiddenConnections ex_lines_no_store)
   \<and> has_node ''p1'' ex_lines_no_store \<and> has_node ''p2'' ex_lines_no_store
   \<and> connections (regenerateConnections ex_lines_no_store) = []
   \<and> personData ex_dashed \<noteq> []
   \<and> getConnectionKey ''a-b'' ''c'' \<in> set (lineOnlyConnections ex_dashed)
   \<and> getConnectionKey ''a-b'' ''c'' \<notin> set (hiddenConnections ex_dashed)
   \<and> has_node ''a-b'' ex_dashed \<and> has_node ''c'' ex_dashed
   \<and> connections (regenerateConnections ex_dashed) = []"
  by (simp add: regenerateConnections_eq ex_lines_no_store_def ex_lines_def ex_dashed_def
        initial_core_def has_node_def map_has_def getConnectionKey_def person_edges_def
        ex_person_def empty_person_def line_only_edge_def key_ids_def)

section \<open>The cleanup pass\<close>

lemma cleanup_person_eq:
  "cleanup_person e (c, s) =
     (c + self_refs e,
      if self_refs e > 0 then s\<lparr>personData := map_set (fst e) (snd (clean_record e)) (personData s)\<rparr> else s)"
  by (cases "spouseId (snd e) = fst e"; cases "motherId (snd e) = fst e"; cases "fatherId (snd e) = fst e")
     (simp_all add: cleanup_person_def Let_def self_refs_def clean_record_def)

lemma fold_cleanup_person:
  "foldl (\<lambda>acc e. cleanup_person e acc) (c, s) es =
     (c + sum_list (map self_refs es),
      s\<lparr>personData := set_each (\<lambda>e. self_refs e > 0) (\<lambda>e. snd (clean_record e)) es (personData s)\<rparr>)"
proof (induction es arbitrary: c s)
  case Nil
  show ?case by simp
next
  case (Cons e es)
  show ?case unfolding foldl_Cons cleanup_person_eq Cons.IH by (simp add: add.assoc)
qed

lemma clean_record_if:
  "clean_record e = (if self_refs e > 0 then (fst e, snd (clean_record e)) else e)"
  by (cases e) (auto simp: clean_record_def self_refs_def split: if_splits)

lemma clean_all_self:
  "distinct (map fst m) \<Longrightarrow>
     set_each (\<lambda>e. self_refs e > 0) (\<lambda>e. snd (clean_record e)) m m = map clean_record m"
  by (rule set_each_self) (rule clean_record_if)

lemma cleanup_eq:
  assumes "distinct (map fst (personData s))"
  shows "cleanupInvalidRelationships s =
     (let n = sum_list (map self_refs (personData s));
          s1 = s\<lparr>personData := map clean_record (personData s)\<rparr>
      in if n > 0 then (n, (regenerateConnections s1)\<lparr>needsRedraw := True\<rparr>) else (n, s1))"
proof (cases "sum_list (map self_refs (personData s)) > 0")
  case True
  with assms show ?thesis
    by (simp add: cleanupInvalidRelationships_def Let_def fold_cleanup_person clean_all_self
          del: sum_list_eq_0_iff)
next
  case False
  with assms show ?thesis
    by (simp add: cleanupInvalidRelationships_def Let_def fold_cleanup_person clean_all_self
          del: sum_list_eq_0_iff)
qed

lemma fst_clean_record: "fst (clean_record e) = fst e"
  by (simp add: clean_record_def)

lemma unself_clean_record: "unself (clean_record e) = clean_record e"
  by (cases e) (auto simp: unself_def clean_record_def)



lemma cleanup_personData:
  assumes dist: "distinct (map fst (personData s))"
  shows "personData (snd (cleanupInvalidRelationships s)) = map clean_record (personData s)"
proof -
  let ?s1 = "s\<lparr>personData := map clean_record (personData s)\<rparr>"
  have d1: "distinct (map fst (personData ?s1))"
    using dist by (simp add: comp_def fst_clean_record)
  have "personData (regenerateConnections ?s1) = map clean_record (personData s)"
    using regenerateConnections_personData [OF d1] by (simp add: comp_def unself_clean_record)
  then show ?thesis using dist by (simp add: cleanup_eq Let_def)
qed




section \<open>History\<close>

lemma takeSnapshot_with_live: "takeSnapshot (with_live l s) = takeSnapshot l"
  by (simp add: takeSnapshot_def with_live_def getCamera_def)

lemma undoStack_pushUndoState:
  "undoStack (pushUndoState s) =
     (if length (undoStack s) \<ge> maxUndoSize s then tl (undoStack s @ [takeSnapshot s])
      else undoStack s @ [takeSnapshot s])"
  by (auto simp: pushUndoState_def Let_def)

lemma maxUndoSize_pushUndoState: "maxUndoSize (pushUndoState s) = maxUndoSize s"
  by (simp add: pushUndoState_def Let_def)

lemma cap_last:
  assumes "0 < m"
  shows "(if length (drop (length xs - m) xs) \<ge> m
          then tl (drop (length xs - m) xs @ [x]) else drop (length xs - m) xs @ [x])
         = drop (length (xs @ [x]) - m) (xs @ [x])"
proof (cases "length xs < m")
  case True
  then show ?thesis by simp
next
  case False
  then have ge: "m \<le> length xs" by simp
  have ne: "drop (length xs - m) xs \<noteq> []" using ge assms by simp
  have "tl (drop (length xs - m) xs @ [x]) = tl (drop (length xs - m) xs) @ [x]"
    using ne by simp
  also have "\<dots> = drop (Suc (length xs - m)) xs @ [x]" by (simp add: drop_Suc tl_drop)
  also have "\<dots> = drop (length (xs @ [x]) - m) (xs @ [x])"
    using ge assms by (simp add: Suc_diff_le)
  finally show ?thesis using ge by simp
qed

lemma push_all_snoc: "push_all (ls @ [l]) s = pushUndoState (with_live l (push_all ls s))"
  by (simp add: push_all_def)

lemma maxUndoSize_push_all: "maxUndoSize (push_all ls s) = maxUndoSize s"
  by (induction ls rule: rev_induct)
     (simp_all add: push_all_snoc maxUndoSize_pushUndoState with_live_def, simp add: push_all_def)

lemma undoStack_push_all:
  assumes m: "0 < maxUndoSize s" and len: "length (undoStack s) \<le> maxUndoSize s"
  shows "undoStack (push_all ls s) =
           drop (length (undoStack s @ map takeSnapshot ls) - maxUndoSize s)
                (undoStack s @ map takeSnapshot ls)"
proof (induction ls rule: rev_induct)
  case Nil
  show ?case using len by (simp add: push_all_def)
next
  case (snoc l ls)
  let ?all = "undoStack s @ map takeSnapshot ls"
  let ?t = "with_live l (push_all ls s)"
  have st: "undoStack ?t = drop (length ?all - maxUndoSize s) ?all"
    using snoc.IH by (simp add: with_live_def)
  have mx: "maxUndoSize ?t = maxUndoSize s"
    by (simp add: with_live_def maxUndoSize_push_all)
  have "undoStack (push_all (ls @ [l]) s) =
          (if length (drop (length ?all - maxUndoSize s) ?all) \<ge> maxUndoSize s
           then tl (drop (length ?all - maxUndoSize s) ?all @ [takeSnapshot l])
           else drop (length ?all - maxUndoSize s) ?all @ [takeSnapshot l])"
    by (simp only: push_all_snoc undoStack_pushUndoState st mx takeSnapshot_with_live)
  also have "\<dots> = drop (length (?all @ [takeSnapshot l]) - maxUndoSize s) (?all @ [takeSnapshot l])"
    using m by (rule cap_last)
  finally show ?case by simp
qed

text \<open>
  C7. With the bound of the constructor (50) and a stack within it, as the constructor
  leaves it, any run of pushes keeps the undo stack within 50 entries: the stack is
  always the last 50 of the entries it held and the snapshots pushed since, so the
  oldest entry goes first, and after more than 50 pushes it is exactly the 50 most
  recent snapshots.
\<close>

theorem undo_stack_bounded:
  assumes m: "maxUndoSize s = 50" and len: "length (undoStack s) \<le> 50"
  shows "length (undoStack (push_all ls s)) \<le> 50
       \<and> undoStack (push_all ls s)
           = drop (length (undoStack s) + length ls - 50) (undoStack s @ map takeSnapshot ls)
       \<and> (50 < length ls \<longrightarrow>
             undoStack (push_all ls s) = drop (length ls - 50) (map takeSnapshot ls)
           \<and> length (undoStack (push_all ls s)) = 50)"
proof -
  have eq: "undoStack (push_all ls s)
           = drop (length (undoStack s) + length ls - 50) (undoStack s @ map takeSnapshot ls)"
    using undoStack_push_all [of s ls] m len by simp
  have le: "length (undoStack (push_all ls s)) \<le> 50"
    by (simp add: eq)
  have more: "undoStack (push_all ls s) = drop (length ls - 50) (map takeSnapshot ls)
              \<and> length (undoStack (push_all ls s)) = 50" if "50 < length ls"
    using that by (simp add: eq)
  from eq le more show ?thesis by blast
qed

theorem undo_stack_bounded_witness:
  "length (undoStack (push_all (map ex_edit [0..<51]) initial_core)) = 50
   \<and> undoStack (push_all (map ex_edit [0..<51]) initial_core)
       = map (\<lambda>i. takeSnapshot (ex_edit i)) [1..<51]"
proof -
  have m: "maxUndoSize (initial_core :: person tree_core) = 50"
    and len: "length (undoStack (initial_core :: person tree_core)) \<le> 50"
    by (simp_all add: initial_core_def)
  have n: "50 < length (map ex_edit [0..<51])" by simp
  have d: "drop (length (map ex_edit [0..<51]) - 50) (map takeSnapshot (map ex_edit [0..<51]))
           = map (\<lambda>i. takeSnapshot (ex_edit i)) [1..<51]"
    by (simp only: length_map length_upt drop_map drop_upt map_map comp_def) simp
  from undo_stack_bounded [OF m len, of "map ex_edit [0..<51]"] n d
  show ?thesis by simp
qed

section \<open>Snapshots and the live records\<close>

text \<open>
  C8 at a failing input. Two persons without a spouse; the state is pushed; then
  \<^verbatim>\<open>createConnection('spouse')\<close> assigns \<^verbatim>\<open>spouseId\<close> on the two live records. The
  snapshot on the undo stack held those same records, so it now says that the two are
  spouses, which they were not when it was taken.
\<close>

theorem snapshot_shares_person_records:
  "map (\<lambda>e. (fst e, spouseId (snd e)))
       (snapshot_store (push_h ex_heap) (hd (undoStack (live (push_h ex_heap)))))
     = [(''p1'', []), (''p2'', [])]
   \<and> hd (undoStack (live (createConnection KSpouse (push_h ex_heap))))
     = hd (undoStack (live (push_h ex_heap)))
   \<and> map (\<lambda>e. (fst e, spouseId (snd e)))
       (snapshot_store (createConnection KSpouse (push_h ex_heap))
          (hd (undoStack (live (createConnection KSpouse (push_h ex_heap))))))
     = [(''p1'', ''p2''), (''p2'', ''p1'')]"
  by (simp add: push_h_def ex_heap_def pushUndoState_def takeSnapshot_def initial_core_def Let_def
        snapshot_store_def createConnection_def get_or_new_def map_get_def write_obj_def on_live_def
        addConnection_def ex_person_def empty_person_def getCamera_def)

section \<open>Saving\<close>

lemma core_saveToCache: "core (snd (saveToCache ev w)) = core w"
  by (simp add: saveToCache_def Let_def split: option.split)









section \<open>Loading\<close>

lemma nodeData_settings: "settings s = settings s' \<Longrightarrow> nodeData s p = nodeData s' p"
  by (simp add: nodeData_def)

lemma restore_person_core:
  "acc_core (restore_person ev p a) =
     (acc_core a)\<lparr>nodes := map_set (pp_id p) (nodeData (acc_core a) p) (nodes (acc_core a)),
                  personData := map_set (pp_id p) (relationshipData p) (personData (acc_core a))\<rparr>"
  by (simp add: restore_person_def Let_def setNode_def)

text \<open>What the loop over \<^verbatim>\<open>persons\<close> makes of the controller, whatever \<^verbatim>\<open>parseInt\<close> says.\<close>

lemma fold_restore_person_core:
  "acc_core (foldl (\<lambda>a p. restore_person ev p a) a ps) =
     (acc_core a)\<lparr>nodes := foldl (\<lambda>m p. map_set (pp_id p) (nodeData (acc_core a) p) m) (nodes (acc_core a)) ps,
                  personData := foldl (\<lambda>m p. map_set (pp_id p) (relationshipData p) m) (personData (acc_core a)) ps\<rparr>"
proof (induction ps arbitrary: a)
  case Nil
  show ?case by simp
next
  case (Cons p ps)
  have s: "settings (acc_core (restore_person ev p a)) = settings (acc_core a)"
    by (simp add: restore_person_core)
  have nd: "\<And>q. nodeData (acc_core (restore_person ev p a)) q = nodeData (acc_core a) q"
    using s by (rule nodeData_settings)
  show ?case unfolding foldl_Cons Cons.IH nd by (simp add: restore_person_core)
qed

lemma personData_pushUndoState: "personData (pushUndoState s) = personData s"
  and nodes_pushUndoState: "nodes (pushUndoState s) = nodes s"
  by (simp_all add: pushUndoState_def Let_def)

lemma nodes_regenerateConnections: "nodes (regenerateConnections s) = nodes s"
  and hidden_regenerateConnections: "hiddenConnections (regenerateConnections s) = hiddenConnections s"
  and lineOnly_regenerateConnections: "lineOnlyConnections (regenerateConnections s) = lineOnlyConnections s"
  by (simp_all add: regenerateConnections_eq)

lemma cleanup_frame:
  assumes "distinct (map fst (personData s))"
  shows "nodes (snd (cleanupInvalidRelationships s)) = nodes s"
    and "hiddenConnections (snd (cleanupInvalidRelationships s)) = hiddenConnections s"
    and "lineOnlyConnections (snd (cleanupInvalidRelationships s)) = lineOnlyConnections s"
  using assms by (simp_all add: cleanup_eq Let_def regenerateConnections_eq)

lemma distinct_cleanup:
  "distinct (map fst (personData s)) \<Longrightarrow> distinct (map fst (personData (snd (cleanupInvalidRelationships s))))"
  by (simp add: cleanup_personData comp_def fst_clean_record)

text \<open>The persons of the saved tree, as the loader turns them back into records and nodes.\<close>

lemma tree5_records:
  "foldl (\<lambda>m p. map_set (pp_id p) (relationshipData p) m) [] (map (personState tree5) (nodes tree5))
     = personData tree5"
  by (simp add: tree5_def initial_core_def personState_def record_of_def map_get_def
        relationshipData_def str_or_def or_opt_str_def truthy_str_def or_str_def ex_person_def
        empty_person_def plain_node_def no_legacy_def Let_def)

lemma tree5_nodes:
  "foldl (\<lambda>m p. map_set (pp_id p) (nodeData s p) m) [] (map (personState tree5) (nodes tree5))
     = nodes tree5"
  by (simp add: tree5_def initial_core_def personState_def record_of_def map_get_def
        nodeData_def str_or_def or_opt_str_def truthy_str_def or_str_def num_or_def or_opt_num_def
        truthy_num_def or_num_def ex_person_def empty_person_def plain_node_def no_legacy_def Let_def)

lemma tree5_clean: "map clean_record (personData tree5) = personData tree5"
  by (simp add: tree5_def initial_core_def clean_record_def ex_person_def empty_person_def)

lemma tree5_unself: "map unself (personData tree5) = personData tree5"
  by (simp add: tree5_def initial_core_def unself_def ex_person_def empty_person_def)

lemma tree5_distinct: "distinct (map fst (personData tree5))"
  by (simp add: tree5_def initial_core_def)

lemma tree5_new_Map: "new_Map (personData tree5) = personData tree5"
  by (simp add: new_Map_def tree5_def initial_core_def)

lemma restore_view_frame:
  "nodes (restore_view data s) = nodes s" "personData (restore_view data s) = personData s"
  "settings (restore_view data s) = settings s"
  by (simp_all add: restore_view_def Let_def setCamera_def split: option.split)

lemma restore_settings_frame:
  "nodes (restore_settings data s) = nodes s" "personData (restore_settings data s) = personData s"
  by (simp_all add: restore_settings_def split: option.split)

lemma saved_tree5:
  "d_people (getCurrentState t tree5) = None"
  "d_persons (getCurrentState t tree5) = Some (map (personState tree5) (nodes tree5))"
  "d_personDataBackup (getCurrentState t tree5) = Some (personData tree5)"
  "d_hiddenConnections (getCurrentState t tree5) = Some []"
  "d_lineOnlyConnections (getCurrentState t tree5) = Some []"
  by (simp_all add: getCurrentState_def empty_persisted_def tree5_def initial_core_def)

text \<open>
  C2. The tree of five is saved with \<^verbatim>\<open>getCurrentState\<close>; the world is cleared with
  \<^verbatim>\<open>confirmClearAll\<close>, whatever it held; the snapshot is loaded with
  \<^verbatim>\<open>processLoadedData\<close>. The store then holds the same persons in the same order with
  the same \<^verbatim>\<open>motherId\<close>, \<^verbatim>\<open>fatherId\<close> and \<^verbatim>\<open>spouseId\<close>, and the nodes have the same
  positions; in fact the records and the nodes are the ones saved. This holds at any
  time, with any \<^verbatim>\<open>parseInt\<close> and any storage.
\<close>

theorem save_load_roundtrip:
  "personData (core (snd (processLoadedData ev (getCurrentState t tree5) (confirmClearAll w))))
     = personData tree5
   \<and> nodes (core (snd (processLoadedData ev (getCurrentState t tree5) (confirmClearAll w))))
     = nodes tree5
   \<and> map (\<lambda>e. (fst e, motherId (snd e), fatherId (snd e), spouseId (snd e)))
        (personData (core (snd (processLoadedData ev (getCurrentState t tree5) (confirmClearAll w)))))
     = [(''p1'', [], [], ''p2''), (''p2'', [], [], ''p1''), (''p3'', ''p1'', [], []),
        (''p4'', [], [], []), (''p5'', [], [], [])]
   \<and> map (\<lambda>e. (fst e, node_x (snd e), node_y (snd e)))
        (nodes (core (snd (processLoadedData ev (getCurrentState t tree5) (confirmClearAll w)))))
     = [(''p1'', 100, 100), (''p2'', 300, 100), (''p3'', 200, 300), (''p4'', 500, 100),
        (''p5'', 700, - 50)]"
proof -
  let ?data = "getCurrentState t tree5"
  let ?w = "confirmClearAll w"
  define s0 where "s0 = (core ?w)\<lparr>nodes := [], connections := [], personData := [],
                           hiddenConnections := [], lineOnlyConnections := []\<rparr>"
  define s1 where "s1 = restore_view ?data (restore_settings ?data s0)"
  define a where "a = foldl (\<lambda>a p. restore_person ev p a)
                   \<lparr>maxId = 0, relationshipsFound = 0, acc_core = s1\<rparr> (map (personState tree5) (nodes tree5))"
  define s2 where "s2 = (if maxId a \<ge> nextId (acc_core a)
                   then (acc_core a)\<lparr>nextId := maxId a + 1\<rparr> else acc_core a)"
  define s3 where "s3 = regenerateConnections (snd (cleanupInvalidRelationships s2))"
  define s4 where "s4 = (if length (connections s3) = 0 \<and> relationshipsFound a > 0
                   then regenerateConnections (s3\<lparr>personData := new_Map (personData tree5)\<rparr>)
                   else s3)"
  have res: "core (snd (processLoadedData ev ?data ?w)) = pushUndoState (s4\<lparr>undoStack := [], redoStack := []\<rparr>)"
    by (simp add: processLoadedData_def saved_tree5 core_saveToCache Let_def
          s0_def s1_def a_def s2_def s3_def s4_def)
  have s1n: "nodes s1 = []" and s1p: "personData s1 = []"
    by (simp_all add: s1_def s0_def restore_view_frame restore_settings_frame)
  have ac: "nodes (acc_core a) = nodes tree5" "personData (acc_core a) = personData tree5"
    by (simp_all add: a_def fold_restore_person_core s1n s1p tree5_records tree5_nodes)
  have s2f: "nodes s2 = nodes tree5" "personData s2 = personData tree5"
    by (simp_all add: s2_def ac)
  have d2: "distinct (map fst (personData s2))" by (simp add: s2f tree5_distinct)
  have s3p: "personData s3 = personData tree5"
    using regenerateConnections_personData [OF distinct_cleanup [OF d2]]
    by (simp add: s3_def cleanup_personData [OF d2] s2f tree5_clean tree5_unself)
  have s3n: "nodes s3 = nodes tree5"
    by (simp add: s3_def nodes_regenerateConnections cleanup_frame [OF d2] s2f)
  have s4p: "personData s4 = personData tree5"
  proof (cases "length (connections s3) = 0 \<and> relationshipsFound a > 0")
    case True
    have "distinct (map fst (personData (s3\<lparr>personData := new_Map (personData tree5)\<rparr>)))"
      by (simp add: tree5_new_Map tree5_distinct)
    moreover from True have "s4 = regenerateConnections (s3\<lparr>personData := new_Map (personData tree5)\<rparr>)"
      unfolding s4_def by simp
    ultimately show ?thesis
      using regenerateConnections_personData [of "s3\<lparr>personData := new_Map (personData tree5)\<rparr>"]
      by (simp add: tree5_new_Map tree5_unself)
  next
    case False
    then have "s4 = s3" unfolding s4_def by auto
    then show ?thesis by (simp add: s3p)
  qed
  have s4n: "nodes s4 = nodes tree5"
    by (simp add: s4_def s3n nodes_regenerateConnections)
  have p: "personData (core (snd (processLoadedData ev ?data ?w))) = personData tree5"
    by (simp add: res personData_pushUndoState s4p)
  have n: "nodes (core (snd (processLoadedData ev ?data ?w))) = nodes tree5"
    by (simp add: res nodes_pushUndoState s4n)
  have pv: "map (\<lambda>e. (fst e, motherId (snd e), fatherId (snd e), spouseId (snd e))) (personData tree5)
     = [(''p1'', [], [], ''p2''), (''p2'', [], [], ''p1''), (''p3'', ''p1'', [], []),
        (''p4'', [], [], []), (''p5'', [], [], [])]"
    by (simp add: tree5_def initial_core_def ex_person_def empty_person_def)
  have nv: "map (\<lambda>e. (fst e, node_x (snd e), node_y (snd e))) (nodes tree5)
     = [(''p1'', 100, 100), (''p2'', 300, 100), (''p3'', 200, 300), (''p4'', 500, 100),
        (''p5'', 700, - 50)]"
    by (simp add: tree5_def initial_core_def plain_node_def)
  show ?thesis by (simp only: p n pv nv)
qed

theorem save_load_roundtrip_witness:
  "personData (core (snd (processLoadedData ex_env (getCurrentState 1000 tree5) (confirmClearAll ex_world))))
     = personData tree5"
  using save_load_roundtrip [of ex_env 1000 ex_world] by (rule conjunct1)

lemma loadCachedState_unrecognized:
  assumes "map_get PrimaryKey (localStorage w) = Some (JsonObj d)"
    and "\<not> truthy_str (d_version d)" and "d_persons d = None"
  shows "snd (snd (loadCachedState ev w)) = w"
    and "fst (loadCachedState ev w) = (d_people d \<noteq> None)"
  using assms by (simp_all add: loadCachedState_def)

text \<open>
  C3 at a failing input. The stored snapshot has neither a version nor \<^verbatim>\<open>persons\<close>
  but has \<^verbatim>\<open>people\<close>: \<^verbatim>\<open>loadCachedState\<close> warns on the console, leaves the world as it
  was, and then notifies success and returns \<^verbatim>\<open>true\<close>. The snapshot that has none of
  the three is the sibling branch: it returns \<^verbatim>\<open>false\<close>.
\<close>

theorem loadCachedState_people_reports_success:
  "loadCachedState ev ex_people_world
     = (True, [ConsoleWarn ''Unrecognized data format, ignoring'',
               NotifySuccess ''Progress Restored'' ''Your previous work has been restored''],
        ex_people_world)
   \<and> loadCachedState ev ex_unknown_world
     = (False, [ConsoleWarn ''Unknown cached state format''], ex_unknown_world)"
  by (simp add: loadCachedState_def ex_people_world_def ex_unknown_world_def map_get_def
        empty_persisted_def truthy_str_def)

theorem loadCachedState_people_reports_success_witness:
  "fst (loadCachedState ex_env ex_people_world) \<and> \<not> fst (loadCachedState ex_env ex_unknown_world)"
  using loadCachedState_people_reports_success [of ex_env] by simp


end
